theory Spec2Isabelle
  imports Complex_Main
begin

section \<open>Numbers, random draws and built-ins\<close>

text \<open>
  The game is JavaScript. Its continuous quantities (positions, speeds, angles, times) are
  modelled as \<^typ>\<open>real\<close>, its counters (level, score, health, countdown) as \<^typ>\<open>int\<close>.
  \<^verbatim>\<open>Math.random()\<close> is the environment's: the sequence of the results of its future
  calls is a tape \<open>nat \<Rightarrow> real\<close>; a call reads position 0 and leaves the tape shifted by one.
  A function that may call \<^verbatim>\<open>Math.random()\<close> takes the tape and returns what is left of it.
\<close>

type_synonym tape = "nat \<Rightarrow> real"

definition draw :: "tape \<Rightarrow> real" where
  "draw t = t 0"

definition rest :: "tape \<Rightarrow> tape" where
  "rest t = (\<lambda>n. t (Suc n))"

text \<open>\<^verbatim>\<open>Math.atan2(dy, dx)\<close>, the angle of the vector \<open>(dx, dy)\<close> in \<open>(-\<pi>, \<pi>]\<close>.\<close>

definition atan2 :: "real \<Rightarrow> real \<Rightarrow> real" where
  "atan2 dy dx =
     (if 0 < dx then arctan (dy / dx)
      else if dx < 0 \<and> 0 \<le> dy then arctan (dy / dx) + pi
      else if dx < 0 \<and> dy < 0 then arctan (dy / dx) - pi
      else if 0 < dy then pi / 2
      else if dy < 0 then - (pi / 2)
      else 0)"

section \<open>utils.js\<close>

text \<open>
  \<^verbatim>\<open>
  function distance(x1, y1, x2, y2) {
      const dx = x2 - x1;
      const dy = y2 - y1;
      return Math.sqrt(dx * dx + dy * dy);
  }
  \<close>
\<close>

definition distance :: "real \<Rightarrow> real \<Rightarrow> real \<Rightarrow> real \<Rightarrow> real" where
  "distance x1 y1 x2 y2 =
     (let dx = x2 - x1; dy = y2 - y1 in sqrt (dx * dx + dy * dy))"

section \<open>butterfly.js\<close>

text \<open>
  The fields of a \<^verbatim>\<open>Butterfly\<close>, without its image and its back reference to the game
  (the canvas size and the player's net radius are passed to the methods that read them).
  The fields \<^verbatim>\<open>x\<close> and \<^verbatim>\<open>y\<close> are \<open>xpos\<close> and \<open>ypos\<close> here. \<open>crossingPoint\<close> is
  \<open>None\<close> while the field is undefined.
\<close>

record butterfly =
  level :: int
  width :: real
  height :: real
  xpos :: real
  ypos :: real
  baseSpeed :: real
  speed :: real
  directionChangeInterval :: real
  timeSinceDirectionChange :: real
  direction :: real
  vx :: real
  vy :: real
  wingFlapSpeed :: real
  wingFlapTime :: real
  wingFlapState :: real
  movementPattern :: string
  catchRadius :: real
  hasCrossedScreen :: bool
  shouldRemove :: bool
  isBoss :: bool
  health :: int
  crossingPoint :: "(real \<times> real) option"

text \<open>The constructor \<^verbatim>\<open>new Butterfly(game, image, level)\<close>.\<close>

definition new_Butterfly :: "int \<Rightarrow> butterfly" where
  "new_Butterfly lv =
     \<lparr> level = lv,
       width = 50 * max (1.2 - real_of_int lv * 0.05) 0.7,
       height = 50 * max (1.2 - real_of_int lv * 0.05) 0.7,
       xpos = 0,
       ypos = 0,
       baseSpeed = 80 + real_of_int lv * 15,
       speed = 80 + real_of_int lv * 15,
       directionChangeInterval = max (2.5 - real_of_int lv * 0.2) 0.3,
       timeSinceDirectionChange = 0,
       direction = 0,
       vx = 0,
       vy = 0,
       wingFlapSpeed = 0.08 + real_of_int lv * 0.008,
       wingFlapTime = 0,
       wingFlapState = 0,
       movementPattern = ''linear'',
       catchRadius = max (40 - real_of_int lv * 3) 15,
       hasCrossedScreen = False,
       shouldRemove = False,
       isBoss = False,
       health = 1,
       crossingPoint = None \<rparr>"

text \<open>
  \<^verbatim>\<open>Butterfly.update(deltaTime)\<close>, for a canvas of size \<open>cw\<close> by \<open>ch\<close>. The wobble calls
  \<^verbatim>\<open>Math.random()\<close> once for a butterfly whose pattern is \<^verbatim>\<open>'direct'\<close>, and a second
  time when the first draw is below 0.05.
\<close>

definition wobble :: "butterfly \<Rightarrow> tape \<Rightarrow> butterfly \<times> tape" where
  "wobble b t =
     (if movementPattern b = ''direct'' then
        (if draw t < 0.05 then
           (let d = direction b + (draw (rest t) - 0.5) * 0.1
            in (b\<lparr>direction := d, vx := cos d * speed b, vy := sin d * speed b\<rparr>,
                rest (rest t)))
         else (b, rest t))
      else (b, t))"

definition isVisible :: "real \<Rightarrow> real \<Rightarrow> butterfly \<Rightarrow> bool" where
  "isVisible cw ch b \<longleftrightarrow> xpos b > 0 \<and> xpos b < cw \<and> ypos b > 0 \<and> ypos b < ch"

definition margin :: real where
  "margin = 100"

definition offScreen :: "real \<Rightarrow> real \<Rightarrow> butterfly \<Rightarrow> bool" where
  "offScreen cw ch b \<longleftrightarrow>
     xpos b < - margin \<or> xpos b > cw + margin \<or> ypos b < - margin \<or> ypos b > ch + margin"

definition trackCrossing :: "real \<Rightarrow> real \<Rightarrow> butterfly \<Rightarrow> butterfly" where
  "trackCrossing cw ch b =
     (if \<not> hasCrossedScreen b then
        (if isVisible cw ch b then
           (let s = speed b * 1.05
            in b\<lparr>hasCrossedScreen := True, speed := s,
                 vx := cos (direction b) * s, vy := sin (direction b) * s\<rparr>)
         else b)
      else b)"

definition flagRemoval :: "real \<Rightarrow> real \<Rightarrow> butterfly \<Rightarrow> butterfly" where
  "flagRemoval cw ch b =
     (if offScreen cw ch b then
        (if hasCrossedScreen b then b\<lparr>shouldRemove := True\<rparr> else b)
      else b)"

definition update_Butterfly ::
  "real \<Rightarrow> real \<Rightarrow> real \<Rightarrow> butterfly \<Rightarrow> tape \<Rightarrow> butterfly \<times> tape" where
  "update_Butterfly cw ch deltaTime b t =
     (let ft = wingFlapTime b + deltaTime;
          b1 = b\<lparr>wingFlapTime := ft,
                 wingFlapState := \<bar>sin (ft / wingFlapSpeed b * pi)\<bar>\<rparr>;
          (b2, t') = wobble b1 t;
          b3 = b2\<lparr>xpos := xpos b2 + vx b2 * deltaTime, ypos := ypos b2 + vy b2 * deltaTime\<rparr>
      in (flagRemoval cw ch (trackCrossing cw ch b3), t'))"

text \<open>
  \<^verbatim>\<open>Butterfly.checkCatch(x, y)\<close>, for a player whose net radius is \<open>nr\<close>. It returns
  its result, the butterfly as the call leaves it, and the tape. \<^verbatim>\<open>this.health\<close> as a
  condition is true when the number is not 0.
\<close>

definition inRange :: "real \<Rightarrow> butterfly \<Rightarrow> real \<Rightarrow> real \<Rightarrow> bool" where
  "inRange nr b x y \<longleftrightarrow>
     distance (xpos b + width b / 2) (ypos b + height b / 2) x y \<le> catchRadius b + nr"

definition checkCatch ::
  "real \<Rightarrow> butterfly \<Rightarrow> real \<Rightarrow> real \<Rightarrow> tape \<Rightarrow> bool \<times> butterfly \<times> tape" where
  "checkCatch nr b x y t =
     (let isCaught = inRange nr b x y in
      if isCaught \<and> isBoss b \<and> health b \<noteq> 0 then
        (let b1 = b\<lparr>health := health b - 1\<rparr> in
         if health b1 \<le> 0 then (True, b1, t)
         else
           (let s = speed b1 * 1.1; d = draw t * pi * 2
            in (False, b1\<lparr>speed := s, direction := d, vx := cos d * s, vy := sin d * s\<rparr>,
                rest t)))
      else (isCaught, b, t))"

text \<open>
  A sequence of \<^verbatim>\<open>checkCatch\<close> calls on one butterfly, one call per click position: the
  results of the calls in order, and the butterfly after the last one.
\<close>

fun checkCatches ::
  "real \<Rightarrow> butterfly \<Rightarrow> (real \<times> real) list \<Rightarrow> tape \<Rightarrow> bool list \<times> butterfly" where
  "checkCatches nr b [] t = ([], b)"
| "checkCatches nr b ((x, y) # cs) t =
     (case checkCatch nr b x y t of
        (r, b', t') \<Rightarrow>
          (case checkCatches nr b' cs t' of (rs, b'') \<Rightarrow> (r # rs, b'')))"

text \<open>
  Whether \<^verbatim>\<open>checkCatch\<close> returns true: the click is in range and, for a boss that has
  health left, this hit takes the last of it. The result of the call does not depend on the
  tape, so any tape serves here.
\<close>

definition catches :: "real \<Rightarrow> butterfly \<Rightarrow> real \<Rightarrow> real \<Rightarrow> bool" where
  "catches nr b x y \<longleftrightarrow> fst (checkCatch nr b x y (\<lambda>n. 0))"

text \<open>
  The butterfly as \<^verbatim>\<open>update\<close> has moved it, before the crossing and removal checks.
\<close>

definition moved :: "real \<Rightarrow> butterfly \<Rightarrow> tape \<Rightarrow> butterfly" where
  "moved deltaTime b t =
     (let ft = wingFlapTime b + deltaTime;
          b2 = fst (wobble (b\<lparr>wingFlapTime := ft,
                              wingFlapState := \<bar>sin (ft / wingFlapSpeed b * pi)\<bar>\<rparr>) t)
      in b2\<lparr>xpos := xpos b2 + vx b2 * deltaTime, ypos := ypos b2 + vy b2 * deltaTime\<rparr>)"

text \<open>
  A sequence of \<^verbatim>\<open>update\<close> calls on one butterfly, one call per frame time.
\<close>

fun updates_Butterfly ::
  "real \<Rightarrow> real \<Rightarrow> real list \<Rightarrow> butterfly \<Rightarrow> tape \<Rightarrow> butterfly \<times> tape" where
  "updates_Butterfly cw ch [] b t = (b, t)"
| "updates_Butterfly cw ch (dt # dts) b t =
     (case update_Butterfly cw ch dt b t of (b', t') \<Rightarrow> updates_Butterfly cw ch dts b' t')"

section \<open>game.js: the state\<close>

text \<open>
  The fields of \<^verbatim>\<open>Game\<close> that the game logic reads and writes. \<open>canvasWidth\<close> and
  \<open>canvasHeight\<close> are \<^verbatim>\<open>canvas.width\<close> and \<^verbatim>\<open>canvas.height\<close>, \<open>netRadius\<close> is
  \<^verbatim>\<open>player.netRadius\<close>, \<open>butterflyImages\<close> is \<^verbatim>\<open>butterflyImages.length\<close>. A field that
  can be undefined or null is an option. \<open>butterflyCounts\<close> is the object keyed by level.

  Three fields hold the environment: \<open>random\<close> is the tape of \<^verbatim>\<open>Math.random()\<close>,
  \<open>timeouts\<close> the pending \<^verbatim>\<open>setTimeout\<close> insertions (delay in milliseconds and the
  butterfly the callback will push, in the order they were scheduled), and
  \<open>countdownIntervals\<close> the number of live \<^verbatim>\<open>setInterval\<close> countdown timers.
\<close>

record game =
  canvasWidth :: real
  canvasHeight :: real
  netRadius :: real
  isRunning :: bool
  currentLevel :: int
  maxLevel :: int
  score :: int
  butterflies :: "butterfly list"
  butterflyImages :: int
  currentWave :: int
  waveTimer :: real
  isWaveTransitioning :: bool
  countdownActive :: bool
  countdownTime :: int
  hasPlayedInitialCountdown :: bool
  isLevelTransitioning :: bool
  showingStartScreen :: bool
  showingInstructions :: bool
  showingSummaryScreen :: bool
  showingNameInput :: bool
  gameStarted :: bool
  butterflyCounts :: "int \<rightharpoonup> int"
  levelTimer :: "real option"
  lastTimestamp :: real
  levelTransitionStartTime :: "real option"
  levelTransitionDuration :: real
  levelTransitionComplete :: "bool option"
  random :: tape
  timeouts :: "(real \<times> butterfly) list"
  countdownIntervals :: nat

section \<open>game.js: spawning\<close>

definition formations :: "string list" where
  "formations = [''line'', ''v'', ''circle'', ''grid'', ''random'']"

text \<open>\<^verbatim>\<open>formations[k]\<close>: undefined (\<open>None\<close>) outside the array.\<close>

definition formationAt :: "int \<Rightarrow> string option" where
  "formationAt k = (if 0 \<le> k \<and> k < 5 then Some (formations ! nat k) else None)"

text \<open>
  \<^verbatim>\<open>positionButterflyInFormation(butterfly, formation, index, count, spawnSide)\<close>;
  \<open>spawnSide\<close> is \<open>None\<close> when the caller leaves it undefined. The \<^verbatim>\<open>switch\<close> has no
  default: an edge other than 0 to 3 leaves the position as it is and draws nothing.
\<close>

definition placeOnEdge ::
  "real \<Rightarrow> real \<Rightarrow> int \<Rightarrow> butterfly \<Rightarrow> tape \<Rightarrow> butterfly \<times> tape" where
  "placeOnEdge cw ch edge b t =
     (if edge = 0 then (b\<lparr>xpos := cw * draw t, ypos := - height b * 2\<rparr>, rest t)
      else if edge = 1 then (b\<lparr>xpos := cw + width b, ypos := ch * draw t\<rparr>, rest t)
      else if edge = 2 then (b\<lparr>xpos := cw * draw t, ypos := ch + height b\<rparr>, rest t)
      else if edge = 3 then (b\<lparr>xpos := - width b * 2, ypos := ch * draw t\<rparr>, rest t)
      else (b, t))"

definition positionButterflyInFormation ::
  "real \<Rightarrow> real \<Rightarrow> butterfly \<Rightarrow> string option \<Rightarrow> int \<Rightarrow> int \<Rightarrow> int option \<Rightarrow> tape
     \<Rightarrow> butterfly \<times> tape" where
  "positionButterflyInFormation cw ch b formation index count spawnSide t =
     (let (edge, t0) = (case spawnSide of Some e \<Rightarrow> (e, t)
                                        | None \<Rightarrow> (\<lfloor>draw t * 4\<rfloor>, rest t));
          crossingX = cw * (0.2 + draw t0 * 0.6);
          t1 = rest t0;
          crossingY = ch * (0.2 + draw t1 * 0.6);
          t2 = rest t1;
          (b1, t3) = placeOnEdge cw ch edge b t2;
          dx = crossingX - xpos b1;
          dy = crossingY - ypos b1;
          d = atan2 dy dx + (draw t3 - 0.5) * pi / 4
      in (b1\<lparr>direction := d, vx := cos d * speed b1, vy := sin d * speed b1,
              crossingPoint := Some (crossingX, crossingY),
              movementPattern := ''direct''\<rparr>,
          rest t3))"

text \<open>
  \<^verbatim>\<open>spawnBossButterfly()\<close>. The body of its loop is \<open>spawnMinion\<close>. A \<^verbatim>\<open>setTimeout\<close>
  whose callback pushes a butterfly is an entry added to \<open>timeouts\<close>.
\<close>

definition bossButterfly :: "real \<Rightarrow> real \<Rightarrow> tape \<Rightarrow> butterfly" where
  "bossButterfly cw ch t =
     (let b0 = new_Butterfly 10;
          b1 = b0\<lparr>width := width b0 * 2.5, height := height b0 * 2.5,
                  catchRadius := catchRadius b0 * 0.7, speed := speed b0 * 0.8,
                  health := 5, isBoss := True,
                  xpos := cw / 2, ypos := ch / 2\<rparr>;
          d = draw t * pi * 2
      in b1\<lparr>direction := d, vx := cos d * speed b1, vy := sin d * speed b1\<rparr>)"

definition minionButterfly :: "real \<Rightarrow> real \<Rightarrow> nat \<Rightarrow> butterfly" where
  "minionButterfly cw ch i =
     (let m = new_Butterfly 9;
          angle = (real i / 8) * pi * 2;
          dist = 150
      in m\<lparr>xpos := cw / 2 + cos angle * dist, ypos := ch / 2 + sin angle * dist,
            direction := angle, vx := cos angle * speed m, vy := sin angle * speed m\<rparr>)"

definition spawnMinion :: "nat \<Rightarrow> game \<Rightarrow> game" where
  "spawnMinion i s =
     s\<lparr>timeouts := timeouts s
          @ [(500 + real i * 100, minionButterfly (canvasWidth s) (canvasHeight s) i)]\<rparr>"

definition spawnBossButterfly :: "game \<Rightarrow> game" where
  "spawnBossButterfly s =
     (let boss = bossButterfly (canvasWidth s) (canvasHeight s) (random s);
          s1 = s\<lparr>random := rest (random s), timeouts := timeouts s @ [(1000, boss)]\<rparr>;
          s2 = fold spawnMinion [0..<8] s1
      in s2\<lparr>levelTimer := Some 0\<rparr>)"

text \<open>
  \<^verbatim>\<open>actuallySpawnButterflies(wave)\<close>; the body of its loop is \<open>spawnOne\<close>. JavaScript's
  \<^verbatim>\<open>%\<close> and \<open>mod\<close> agree on \<open>safeLevel - 1\<close>, which is not negative when \<open>maxLevel\<close> is
  at least 1.
\<close>

definition spawnOne :: "int \<Rightarrow> int \<Rightarrow> nat \<Rightarrow> game \<Rightarrow> game" where
  "spawnOne safeLevel butterflyCount i s =
     (let b = new_Butterfly safeLevel;
          formation = formationAt ((safeLevel - 1) mod 5);
          (b1, t1) = positionButterflyInFormation (canvasWidth s) (canvasHeight s) b formation
                       (int i) butterflyCount None (random s);
          levelSpeedBonus = 1 + real_of_int (safeLevel - 1) * 0.1;
          speedVariation = (0.8 + draw t1 * 0.4) * levelSpeedBonus;
          sp = speed b1 * speedVariation;
          b2 = b1\<lparr>speed := sp, vx := cos (direction b1) * sp, vy := sin (direction b1) * sp\<rparr>
      in s\<lparr>random := rest t1, timeouts := timeouts s @ [(real i * 50, b2)]\<rparr>)"

definition actuallySpawnButterflies :: "int \<Rightarrow> game \<Rightarrow> game" where
  "actuallySpawnButterflies wave s =
     (let safeLevel = min (max (currentLevel s) 1) (maxLevel s) in
      if safeLevel = 10 then spawnBossButterfly s
      else
        (let butterflyCount = 15;
             imageIndex = min (safeLevel - 1) (butterflyImages s - 1)
         in if imageIndex < 0 \<or> imageIndex \<ge> butterflyImages s then s
            else (fold (spawnOne safeLevel butterflyCount) [0..<nat butterflyCount] s)
                   \<lparr>levelTimer := Some 0\<rparr>))"

definition spawnButterflies :: "int \<Rightarrow> game \<Rightarrow> game" where
  "spawnButterflies wave s = actuallySpawnButterflies wave (s\<lparr>hasPlayedInitialCountdown := True\<rparr>)"

text \<open>The callback of a spawn's \<^verbatim>\<open>setTimeout\<close>: \<^verbatim>\<open>this.butterflies.push(butterfly)\<close>.\<close>

definition insertCallback :: "butterfly \<Rightarrow> game \<Rightarrow> game" where
  "insertCallback b s = s\<lparr>butterflies := butterflies s @ [b]\<rparr>"

text \<open>The environment runs the \<open>k\<close>-th pending timeout: its callback runs and the entry is gone.\<close>

definition fireTimeout :: "nat \<Rightarrow> game \<Rightarrow> game" where
  "fireTimeout k s =
     (if k < length (timeouts s) then
        insertCallback (snd (timeouts s ! k))
          (s\<lparr>timeouts := take k (timeouts s) @ drop (Suc k) (timeouts s)\<rparr>)
      else s)"

section \<open>game.js: start and countdown\<close>

text \<open>
  \<^verbatim>\<open>start()\<close>. The loop that zeroes \<^verbatim>\<open>butterflyCounts[1..maxLevel]\<close> is a fold; the
  \<^verbatim>\<open>setInterval\<close> is one more live countdown interval.
\<close>

definition start :: "game \<Rightarrow> game" where
  "start s =
     s\<lparr>butterflies := [],
       showingStartScreen := False,
       showingInstructions := False,
       isRunning := True,
       gameStarted := True,
       currentLevel := 1,
       currentWave := 0,
       score := 0,
       levelTimer := Some 0,
       butterflyCounts := fold (\<lambda>i m. m(i \<mapsto> 0)) [1..maxLevel s] (butterflyCounts s),
       isWaveTransitioning := False,
       waveTimer := 0,
       isLevelTransitioning := False,
       hasPlayedInitialCountdown := False,
       countdownActive := True,
       countdownTime := 3,
       countdownIntervals := Suc (countdownIntervals s)\<rparr>"

text \<open>
  The callback of the countdown interval. \<^verbatim>\<open>clearInterval(countdownInterval)\<close> ends the
  interval that is running the callback.
\<close>

definition countdownCallback :: "game \<Rightarrow> game" where
  "countdownCallback s =
     (let s1 = s\<lparr>countdownTime := countdownTime s - 1\<rparr> in
      if countdownTime s1 \<le> 0 then
        spawnButterflies 0
          (s1\<lparr>countdownIntervals := countdownIntervals s1 - 1,
              countdownActive := False,
              levelTimer := Some 0\<rparr>)
      else s1)"

text \<open>The environment runs a countdown interval, when one is live.\<close>

definition countdownTick :: "game \<Rightarrow> game" where
  "countdownTick s = (if countdownIntervals s = 0 then s else countdownCallback s)"

section \<open>game.js: level completion\<close>

text \<open>
  \<^verbatim>\<open>gameComplete()\<close>: the summary screen it draws and the listeners it installs are
  outside the model.
\<close>

definition gameComplete :: "game \<Rightarrow> game" where
  "gameComplete s = s\<lparr>isRunning := False, showingSummaryScreen := True\<rparr>"

text \<open>\<^verbatim>\<open>levelComplete(fastTransition)\<close>; \<open>now\<close> is the value of \<^verbatim>\<open>Date.now()\<close>.\<close>

definition levelComplete :: "bool \<Rightarrow> real \<Rightarrow> game \<Rightarrow> game" where
  "levelComplete fastTransition now s =
     (if isLevelTransitioning s then s
      else
        (let s1 = s\<lparr>isLevelTransitioning := True\<rparr> in
         if currentLevel s1 < maxLevel s1 then
           s1\<lparr>currentLevel := currentLevel s1 + 1,
              levelTransitionStartTime := Some now,
              levelTransitionDuration := 1000,
              levelTransitionComplete := Some False\<rparr>
         else gameComplete s1))"

definition startNextLevel :: "game \<Rightarrow> game" where
  "startNextLevel s =
     (let s1 = s\<lparr>currentWave := 0, isWaveTransitioning := False, waveTimer := 0,
                 levelTimer := Some 0\<rparr>;
          s2 = spawnButterflies 0 s1
      in s2\<lparr>isLevelTransitioning := False,
             levelTransitionComplete := Some True,
             levelTransitionStartTime := None\<rparr>)"

section \<open>game.js: clicks\<close>

text \<open>
  \<^verbatim>\<open>butterflyCounts[level]++\<close>: a key that holds a number holds one more; a key that
  holds none still holds no number.
\<close>

definition increment :: "(int \<rightharpoonup> int) \<Rightarrow> int \<Rightarrow> (int \<rightharpoonup> int)" where
  "increment m k = m(k := map_option (\<lambda>n. n + 1) (m k))"

text \<open>\<^verbatim>\<open>xs.splice(i, 1)\<close>.\<close>

definition splice1 :: "nat \<Rightarrow> 'a list \<Rightarrow> 'a list" where
  "splice1 i xs = take i xs @ drop (Suc i) xs"

text \<open>
  The hit-test loop of \<^verbatim>\<open>handleClick\<close>, \<^verbatim>\<open>for (let i = length - 1; i >= 0; i--)\<close>:
  \<open>catchLoop n\<close> has the indices below \<open>n\<close> left to visit. \<^verbatim>\<open>checkCatch\<close> changes the
  butterfly in place, so the list holds what the call left.
\<close>

fun catchLoop :: "nat \<Rightarrow> real \<Rightarrow> real \<Rightarrow> game \<Rightarrow> game" where
  "catchLoop 0 x y s = s"
| "catchLoop (Suc i) x y s =
     (case checkCatch (netRadius s) (butterflies s ! i) x y (random s) of
        (caught, b, t) \<Rightarrow>
          (let s1 = s\<lparr>butterflies := (butterflies s)[i := b], random := t\<rparr> in
           if caught then
             s1\<lparr>score := score s1 + level b * 10,
                butterflyCounts := increment (butterflyCounts s1) (level b),
                butterflies := splice1 i (butterflies s1)\<rparr>
           else catchLoop i x y s1))"

text \<open>
  \<^verbatim>\<open>handleClick(e)\<close>, with \<open>x\<close> and \<open>y\<close> the click's position relative to the canvas.
\<close>

definition handleClick :: "real \<Rightarrow> real \<Rightarrow> game \<Rightarrow> game" where
  "handleClick x y s =
     (if isLevelTransitioning s \<or> countdownActive s then s
      else if showingStartScreen s \<or> showingInstructions s \<or> showingSummaryScreen s then s
      else catchLoop (length (butterflies s)) x y s)"

section \<open>game.js: the frame\<close>

text \<open>
  The first loop of \<^verbatim>\<open>update\<close>, again from the last index down: each butterfly is
  updated, and spliced out when it is flagged for removal.
\<close>

fun updateLoop :: "nat \<Rightarrow> real \<Rightarrow> game \<Rightarrow> game" where
  "updateLoop 0 deltaTime s = s"
| "updateLoop (Suc i) deltaTime s =
     (case update_Butterfly (canvasWidth s) (canvasHeight s) deltaTime (butterflies s ! i)
             (random s) of
        (b, t) \<Rightarrow>
          (let bs = (butterflies s)[i := b]
           in updateLoop i deltaTime
                (s\<lparr>butterflies := (if shouldRemove b then splice1 i bs else bs),
                   random := t\<rparr>)))"

text \<open>The extra group that \<^verbatim>\<open>update\<close> spawns now and then; \<open>extraOne\<close> is its loop body.\<close>

definition extraOne :: "string option \<Rightarrow> int \<Rightarrow> int \<Rightarrow> nat \<Rightarrow> game \<Rightarrow> game" where
  "extraOne formation count spawnSide i s =
     (let b = new_Butterfly (currentLevel s);
          (b1, t1) = positionButterflyInFormation (canvasWidth s) (canvasHeight s) b formation
                       (int i) count (Some spawnSide) (random s);
          sp = speed b1 * 1.2;
          b2 = b1\<lparr>speed := sp, vx := cos (direction b1) * sp, vy := sin (direction b1) * sp\<rparr>
      in s\<lparr>random := t1, butterflies := butterflies s @ [b2]\<rparr>)"

definition extraSpawn :: "game \<Rightarrow> game" where
  "extraSpawn s =
     (if \<not> isLevelTransitioning s \<and> length (butterflies s) < 20 then
        (if draw (random s) < 0.01 then
           (let t1 = rest (random s);
                formation = formationAt \<lfloor>draw t1 * 5\<rfloor>;
                t2 = rest t1;
                count = 3 + \<lfloor>draw t2 * 3\<rfloor>;
                t3 = rest t2;
                spawnSide = \<lfloor>draw t3 * 4\<rfloor>;
                t4 = rest t3
            in fold (extraOne formation count spawnSide) [0..<nat count] (s\<lparr>random := t4\<rparr>))
         else s\<lparr>random := rest (random s)\<rparr>)
      else s)"

text \<open>\<^verbatim>\<open>update(deltaTime)\<close>; \<open>now\<close> is what \<^verbatim>\<open>Date.now()\<close> returns during the call.\<close>

definition update :: "real \<Rightarrow> real \<Rightarrow> game \<Rightarrow> game" where
  "update deltaTime now s =
     (if isLevelTransitioning s then s
      else if countdownActive s then s
      else
        (let s1 = updateLoop (length (butterflies s)) deltaTime s;
             lt = (case levelTimer s1 of None \<Rightarrow> 0 | Some v \<Rightarrow> v) + deltaTime;
             s2 = s1\<lparr>levelTimer := Some lt\<rparr>;
             allowLevelProgression = (length (butterflies s2) > 0 \<or> lt \<ge> 2)
         in if allowLevelProgression then
              (if lt \<ge> 10 \<and> \<not> isLevelTransitioning s2 then
                 (levelComplete True now s2)\<lparr>levelTimer := Some 0\<rparr>
               else
                 extraSpawn
                   (if length (butterflies s2) = 0 \<and> \<not> isLevelTransitioning s2 then
                      (levelComplete True now s2)\<lparr>levelTimer := Some 0\<rparr>
                    else s2))
            else extraSpawn s2))"

text \<open>
  \<^verbatim>\<open>gameLoop(timestamp)\<close>, without the drawing; \<open>timestamp\<close> is the time of the frame
  (the code reads \<^verbatim>\<open>performance.now()\<close> when the browser passes none) and \<open>now\<close> what
  \<^verbatim>\<open>Date.now()\<close> returns. \<^verbatim>\<open>levelTransitionStartTime\<close> as a condition is true when it
  holds a number other than 0. The frames of a transition and of the summary screen return
  before \<open>lastTimestamp\<close> is written.
\<close>

definition regularFrame :: "real \<Rightarrow> real \<Rightarrow> game \<Rightarrow> game" where
  "regularFrame timestamp now s =
     (if isRunning s \<and> \<not> isLevelTransitioning s then
        (let deltaTime = (timestamp - lastTimestamp s) / 1000
         in update deltaTime now (s\<lparr>lastTimestamp := timestamp\<rparr>))
      else s\<lparr>lastTimestamp := timestamp\<rparr>)"

definition gameLoop :: "real \<Rightarrow> real \<Rightarrow> game \<Rightarrow> game" where
  "gameLoop timestamp now s =
     (if showingNameInput s then s
      else if showingSummaryScreen s then s
      else
        (case levelTransitionStartTime s of
           Some st \<Rightarrow>
             (if isLevelTransitioning s \<and> st \<noteq> 0 then
                (let elapsed = now - st;
                     progress = min 1 (elapsed / levelTransitionDuration s)
                 in if progress < 1 then s
                    else if levelTransitionComplete s = Some False then
                      (startNextLevel (s\<lparr>levelTransitionComplete := Some True\<rparr>))
                        \<lparr>levelTransitionStartTime := None\<rparr>
                    else regularFrame timestamp now s)
              else regularFrame timestamp now s)
         | None \<Rightarrow> regularFrame timestamp now s))"

section \<open>A session\<close>

text \<open>
  What can happen after \<^verbatim>\<open>start()\<close>: an animation frame, a click on the canvas, a tick of
  the countdown interval, a pending insertion coming due. The browser decides the order.
\<close>

datatype event =
    Frame real real
  | Click real real
  | Tick
  | Timeout nat

fun step :: "game \<Rightarrow> event \<Rightarrow> game" where
  "step s (Frame timestamp now) = gameLoop timestamp now s"
| "step s (Click x y) = handleClick x y s"
| "step s Tick = countdownTick s"
| "step s (Timeout k) = fireTimeout k s"

definition run :: "game \<Rightarrow> event list \<Rightarrow> game" where
  "run s es = foldl step s es"

section \<open>game.js: construction\<close>

text \<open>
  The state a page load leaves: the constructor of \<^verbatim>\<open>Game\<close> for a window of size \<open>cw\<close> by
  \<open>ch\<close> (the player's net radius is 40), then \<^verbatim>\<open>loadAssets()\<close>, which pushes one image for
  each level, then \<^verbatim>\<open>showStartScreen()\<close>. The constructor leaves \<^verbatim>\<open>levelTimer\<close> and the
  transition fields undefined; \<open>levelTransitionDuration\<close> is a number here because it is
  read only after \<^verbatim>\<open>levelComplete\<close> has set it.
\<close>

definition new_Game :: "real \<Rightarrow> real \<Rightarrow> tape \<Rightarrow> game" where
  "new_Game cw ch t =
     \<lparr> canvasWidth = cw,
       canvasHeight = ch,
       netRadius = 40,
       isRunning = False,
       currentLevel = 1,
       maxLevel = 10,
       score = 0,
       butterflies = [],
       butterflyImages = 0,
       currentWave = 0,
       waveTimer = 0,
       isWaveTransitioning = False,
       countdownActive = False,
       countdownTime = 3,
       hasPlayedInitialCountdown = False,
       isLevelTransitioning = False,
       showingStartScreen = True,
       showingInstructions = False,
       showingSummaryScreen = False,
       showingNameInput = False,
       gameStarted = False,
       butterflyCounts = fold (\<lambda>i m. m(i \<mapsto> 0)) [1..10] Map.empty,
       levelTimer = None,
       lastTimestamp = 0,
       levelTransitionStartTime = None,
       levelTransitionDuration = 0,
       levelTransitionComplete = None,
       random = t,
       timeouts = [],
       countdownIntervals = 0 \<rparr>"

definition loadAssets :: "game \<Rightarrow> game" where
  "loadAssets s = s\<lparr>butterflyImages := fold (\<lambda>i n. n + 1) [1..maxLevel s] (butterflyImages s)\<rparr>"

definition showStartScreen :: "game \<Rightarrow> game" where
  "showStartScreen s =
     s\<lparr>showingStartScreen := True, showingInstructions := False, isRunning := False\<rparr>"

definition init :: "real \<Rightarrow> real \<Rightarrow> tape \<Rightarrow> game" where
  "init cw ch t = showStartScreen (loadAssets (new_Game cw ch t))"

section \<open>Notions used in the statements\<close>

text \<open>The conditions under which \<^verbatim>\<open>handleClick\<close> reaches its hit-test loop.\<close>

definition normalPlay :: "game \<Rightarrow> bool" where
  "normalPlay s \<longleftrightarrow>
     \<not> isLevelTransitioning s \<and> \<not> countdownActive s \<and> \<not> showingStartScreen s
     \<and> \<not> showingInstructions s \<and> \<not> showingSummaryScreen s"

text \<open>
  Two butterflies are the same one up to what a hit on a boss changes (its health, speed,
  heading and velocity): they are equal once these five fields are blanked.
\<close>

definition blank :: "butterfly \<Rightarrow> butterfly" where
  "blank b = b\<lparr>health := 0, speed := 0, direction := 0, vx := 0, vy := 0\<rparr>"

definition sameButterfly :: "butterfly \<Rightarrow> butterfly \<Rightarrow> bool" where
  "sameButterfly b b' \<longleftrightarrow> blank b = blank b'"

text \<open>
  The outcomes of a click: the butterfly at index \<open>i\<close> is caught (it is spliced out of the
  collection, whose other members stay in place, and the score and the tally of its level go
  up), or nothing is caught.
\<close>

definition caughtAt :: "nat \<Rightarrow> game \<Rightarrow> game \<Rightarrow> bool" where
  "caughtAt i s s' \<longleftrightarrow>
     (\<exists>bs'. list_all2 sameButterfly (butterflies s) bs' \<and> take i bs' = take i (butterflies s)
        \<and> butterflies s' = splice1 i bs')
     \<and> score s' = score s + 10 * level (butterflies s ! i)
     \<and> butterflyCounts s' = increment (butterflyCounts s) (level (butterflies s ! i))"

definition nothingCaught :: "game \<Rightarrow> game \<Rightarrow> bool" where
  "nothingCaught s s' \<longleftrightarrow>
     list_all2 sameButterfly (butterflies s) (butterflies s') \<and> score s' = score s
     \<and> butterflyCounts s' = butterflyCounts s"

text \<open>
  What one call or one event may do to the level: leave it, or raise it by one when it is
  below \<open>maxLevel\<close>; \<open>maxLevel\<close> itself stays.
\<close>

definition advances :: "game \<Rightarrow> game \<Rightarrow> bool" where
  "advances s s' \<longleftrightarrow>
     maxLevel s' = maxLevel s \<and>
     (currentLevel s' = currentLevel s \<or>
      currentLevel s' = currentLevel s + 1 \<and> currentLevel s < maxLevel s)"

text \<open>A tape of legal draws: \<^verbatim>\<open>Math.random()\<close> returns a number in \<open>[0, 1)\<close>.\<close>

definition validTape :: "tape \<Rightarrow> bool" where
  "validTape t \<longleftrightarrow> (\<forall>n. 0 \<le> t n \<and> t n < 1)"

definition constTape :: "real \<Rightarrow> tape" where
  "constTape r = (\<lambda>n. r)"

section \<open>Concrete scenarios\<close>

text \<open>An 800 by 600 window in which every draw of \<^verbatim>\<open>Math.random()\<close> is one half.\<close>

definition demoGame :: game where
  "demoGame = init 800 600 (constTape (1/2))"

text \<open>The level-10 queen of that window, and five clicks near her centre.\<close>

definition demoBoss :: butterfly where
  "demoBoss = bossButterfly 800 600 (constTape (1/2))"

definition demoClicks :: "(real \<times> real) list" where
  "demoClicks = replicate 5 (440, 340)"

text \<open>A level-1 butterfly far to the left of the window, and one that has crossed it.\<close>

definition farButterfly :: butterfly where
  "farButterfly = (new_Butterfly 1)\<lparr>xpos := - 5000, ypos := 300, vx := - 95\<rparr>"

definition crossedButterfly :: butterfly where
  "crossedButterfly = (new_Butterfly 1)\<lparr>xpos := 850, ypos := 300, vx := 95, hasCrossedScreen := True\<rparr>"

text \<open>A session of that window in the transition that follows level 1.\<close>

definition transitioningGame :: game where
  "transitioningGame = levelComplete True 5000 ((start demoGame)\<lparr>countdownActive := False\<rparr>)"

text \<open>
  A level-10 fight in that window: a level-9 minion and, spawned after it, the queen, their
  centres five pixels apart.
\<close>

definition demoMinion :: butterfly where
  "demoMinion = (minionButterfly 800 600 0)\<lparr>xpos := 420, ypos := 320\<rparr>"

definition bossFight :: game where
  "bossFight =
     (start demoGame)\<lparr>countdownActive := False, currentLevel := 10,
                       butterflies := [demoMinion, demoBoss]\<rparr>"

text \<open>Level 1 in that window with two butterflies at the same place.\<close>

definition nearButterfly :: butterfly where
  "nearButterfly = (new_Butterfly 1)\<lparr>xpos := 100, ypos := 100\<rparr>"

definition clickGame :: game where
  "clickGame =
     (start demoGame)\<lparr>countdownActive := False, butterflies := [nearButterfly, nearButterfly]\<rparr>"

text \<open>
  A session of that window in which the player is away while the countdown ends. A frame runs
  one second after \<^verbatim>\<open>start\<close>; the three countdown ticks follow, the third scheduling the
  wave of level 1; the next frame comes 2.5 s after the previous one, before any insertion
  has run; then the first insertion comes due; then a frame runs after the transition's
  second has passed.
\<close>

definition staleEvents :: "event list" where
  "staleEvents =
     [Frame 1000 1000, Tick, Tick, Tick, Frame 3500 3500, Timeout 0, Frame 4600 4600]"

definition staleScenario :: "nat \<Rightarrow> game" where
  "staleScenario n = run (start demoGame) (take n staleEvents)"

section \<open>The random tape\<close>

lemma draw_constTape [simp]: "draw (constTape r) = r"
  by (simp add: draw_def constTape_def)

lemma rest_constTape [simp]: "rest (constTape r) = constTape r"
  by (simp add: rest_def constTape_def)

section \<open>Properties of a butterfly\<close>

subsection \<open>Catching\<close>

lemma distance_le_iff:
  "0 \<le> r \<Longrightarrow>
   distance x1 y1 x2 y2 \<le> r \<longleftrightarrow> (x2 - x1) * (x2 - x1) + (y2 - y1) * (y2 - y1) \<le> r * r"
proof -
  assume r: "0 \<le> r"
  let ?a = "(x2 - x1) * (x2 - x1) + (y2 - y1) * (y2 - y1)"
  have "sqrt ?a \<le> r \<longleftrightarrow> sqrt ?a \<le> sqrt (r * r)" using r by simp
  also have "\<dots> \<longleftrightarrow> ?a \<le> r * r" by (rule real_sqrt_le_iff)
  finally show ?thesis by (simp add: distance_def Let_def)
qed

lemma inRange_iff:
  "0 \<le> catchRadius b + nr \<Longrightarrow>
   inRange nr b x y \<longleftrightarrow>
     (x - (xpos b + width b / 2)) * (x - (xpos b + width b / 2))
       + (y - (ypos b + height b / 2)) * (y - (ypos b + height b / 2))
     \<le> (catchRadius b + nr) * (catchRadius b + nr)"
  unfolding inRange_def by (rule distance_le_iff)

lemma checkCatch_inRange:
  "inRange nr (fst (snd (checkCatch nr b x y t))) x' y' = inRange nr b x' y'"
  by (simp add: checkCatch_def inRange_def Let_def)

lemma checkCatch_isBoss: "isBoss (fst (snd (checkCatch nr b x y t))) = isBoss b"
  by (simp add: checkCatch_def Let_def)

lemma checkCatch_level: "level (fst (snd (checkCatch nr b x y t))) = level b"
  by (simp add: checkCatch_def Let_def)

lemma checkCatch_health:
  "health (fst (snd (checkCatch nr b x y t))) =
     (if inRange nr b x y \<and> isBoss b \<and> health b \<noteq> 0 then health b - 1 else health b)"
  by (simp add: checkCatch_def Let_def)

lemma checkCatch_boss_result:
  "0 \<le> health b \<Longrightarrow> isBoss b \<Longrightarrow>
   fst (checkCatch nr b x y t) = (inRange nr b x y \<and> health b \<le> 1)"
  by (auto simp add: checkCatch_def Let_def)

lemma checkCatch_hit:
  "isBoss b \<Longrightarrow> 1 < health b \<Longrightarrow> inRange nr b x y \<Longrightarrow>
   checkCatch nr b x y t =
     (False,
      b\<lparr>health := health b - 1, speed := speed b * 1.1, direction := draw t * pi * 2,
        vx := cos (draw t * pi * 2) * (speed b * 1.1),
        vy := sin (draw t * pi * 2) * (speed b * 1.1)\<rparr>,
      rest t)"
  by (simp add: checkCatch_def Let_def)

lemma checkCatch_last_hit:
  "isBoss b \<Longrightarrow> health b = 1 \<Longrightarrow> inRange nr b x y \<Longrightarrow>
   checkCatch nr b x y t = (True, b\<lparr>health := 0\<rparr>, t)"
  by (simp add: checkCatch_def Let_def)

lemma checkCatch_plain: "\<not> isBoss b \<Longrightarrow> checkCatch nr b x y t = (inRange nr b x y, b, t)"
  by (simp add: checkCatch_def Let_def)

lemma checkCatch_miss: "\<not> inRange nr b x y \<Longrightarrow> checkCatch nr b x y t = (False, b, t)"
  by (simp add: checkCatch_def Let_def)

lemma checkCatch_catches: "fst (checkCatch nr b x y t) = catches nr b x y"
  by (simp add: catches_def checkCatch_def Let_def)

lemma catches_inRange: "catches nr b x y \<Longrightarrow> inRange nr b x y"
  by (auto simp add: catches_def checkCatch_def Let_def split: if_splits)

lemma checkCatches_length: "length (fst (checkCatches nr b cs t)) = length cs"
proof (induction cs arbitrary: b t)
  case Nil
  then show ?case by simp
next
  case (Cons c cs)
  obtain x y where c: "c = (x, y)" by (cases c)
  obtain r b' t' where cc: "checkCatch nr b x y t = (r, b', t')"
    by (cases "checkCatch nr b x y t")
  show ?case using Cons.IH[of b' t'] c cc by (auto split: prod.splits)
qed

text \<open>
  With health \<open>h\<close> left, a call on a boss returns true when its click is in range and at
  least \<open>h\<close> of the clicks so far, itself included, were in range.
\<close>

lemma checkCatches_boss:
  "isBoss b \<Longrightarrow> 0 \<le> health b \<Longrightarrow> k < length cs \<Longrightarrow>
   fst (checkCatches nr b cs t) ! k =
     (inRange nr b (fst (cs ! k)) (snd (cs ! k)) \<and>
      health b \<le> int (length (filter (\<lambda>c. inRange nr b (fst c) (snd c)) (take (Suc k) cs))))"
proof (induction cs arbitrary: b t k)
  case Nil
  then show ?case by simp
next
  case (Cons c cs)
  obtain x y where c: "c = (x, y)" by (cases c)
  obtain r b' t' where cc: "checkCatch nr b x y t = (r, b', t')"
    by (cases "checkCatch nr b x y t")
  have b': "b' = fst (snd (checkCatch nr b x y t))" using cc by simp
  have r: "r = (inRange nr b x y \<and> health b \<le> 1)"
    using checkCatch_boss_result[OF Cons.prems(2,1), of nr x y t] cc by simp
  have boss': "isBoss b'" using Cons.prems(1) by (simp add: b' checkCatch_isBoss)
  have h': "health b' = (if inRange nr b x y \<and> health b \<noteq> 0 then health b - 1 else health b)"
    using Cons.prems(1) by (simp add: b' checkCatch_health)
  have h'0: "0 \<le> health b'" using h' Cons.prems(2) by auto
  have inr: "\<And>x' y'. inRange nr b' x' y' = inRange nr b x' y'"
    by (simp add: b' checkCatch_inRange)
  show ?case
  proof (cases k)
    case 0
    then show ?thesis using c cc r Cons.prems(2) by (auto split: prod.splits)
  next
    case (Suc j)
    then have j: "j < length cs" using Cons.prems(3) by simp
    have "fst (checkCatches nr b (c # cs) t) ! k = fst (checkCatches nr b' cs t') ! j"
      using c cc Suc by (simp split: prod.splits)
    also have "\<dots> = (inRange nr b' (fst (cs ! j)) (snd (cs ! j)) \<and>
      health b' \<le> int (length (filter (\<lambda>c. inRange nr b' (fst c) (snd c)) (take (Suc j) cs))))"
      using Cons.IH[OF boss' h'0 j] by simp
    finally show ?thesis using Suc c h' inr Cons.prems(2) by auto
  qed
qed

text \<open>
  C4. A boss with health 5: in any sequence of \<^verbatim>\<open>checkCatch\<close> calls, a call returns true
  exactly when its click is in range and it is at least the fifth in-range call, so five
  in-range calls are needed and the fifth returns true. An in-range call on a boss with more
  than one health point returns false, takes one health point, multiplies the speed by 1.1
  and sets the heading to a fresh draw times \<open>2\<pi>\<close>, with the velocity recomputed from both;
  the in-range call on a boss with one health point returns true. A butterfly that is not a
  boss returns the result of the distance test and is left as it was.
\<close>

theorem boss_health_drain:
  "(isBoss b \<and> health b = 5 \<longrightarrow>
      length (fst (checkCatches nr b cs t)) = length cs \<and>
      (\<forall>k<length cs.
         fst (checkCatches nr b cs t) ! k =
           (inRange nr b (fst (cs ! k)) (snd (cs ! k)) \<and>
            5 \<le> length (filter (\<lambda>c. inRange nr b (fst c) (snd c)) (take (Suc k) cs)))))
   \<and> (isBoss b \<and> 1 < health b \<and> inRange nr b x y \<longrightarrow>
        checkCatch nr b x y t =
          (False,
           b\<lparr>health := health b - 1, speed := speed b * 1.1, direction := draw t * pi * 2,
             vx := cos (draw t * pi * 2) * (speed b * 1.1),
             vy := sin (draw t * pi * 2) * (speed b * 1.1)\<rparr>,
           rest t))
   \<and> (isBoss b \<and> health b = 1 \<and> inRange nr b x y \<longrightarrow>
        checkCatch nr b x y t = (True, b\<lparr>health := 0\<rparr>, t))
   \<and> (\<not> isBoss b \<longrightarrow> checkCatch nr b x y t = (inRange nr b x y, b, t))"
proof (intro conjI impI allI)
  assume "isBoss b \<and> health b = 5"
  then show "length (fst (checkCatches nr b cs t)) = length cs"
    by (simp add: checkCatches_length)
next
  fix k
  assume b: "isBoss b \<and> health b = 5" and k: "k < length cs"
  have "0 \<le> health b" using b by simp
  from checkCatches_boss[OF _ this k, of nr t] b
  show "fst (checkCatches nr b cs t) ! k =
           (inRange nr b (fst (cs ! k)) (snd (cs ! k)) \<and>
            5 \<le> length (filter (\<lambda>c. inRange nr b (fst c) (snd c)) (take (Suc k) cs)))"
    by simp
next
  assume "isBoss b \<and> 1 < health b \<and> inRange nr b x y"
  then show "checkCatch nr b x y t =
          (False,
           b\<lparr>health := health b - 1, speed := speed b * 1.1, direction := draw t * pi * 2,
             vx := cos (draw t * pi * 2) * (speed b * 1.1),
             vy := sin (draw t * pi * 2) * (speed b * 1.1)\<rparr>,
           rest t)"
    by (simp add: checkCatch_hit)
next
  assume "isBoss b \<and> health b = 1 \<and> inRange nr b x y"
  then show "checkCatch nr b x y t = (True, b\<lparr>health := 0\<rparr>, t)"
    by (simp add: checkCatch_last_hit)
next
  assume "\<not> isBoss b"
  then show "checkCatch nr b x y t = (inRange nr b x y, b, t)"
    by (rule checkCatch_plain)
qed

lemma demoBoss_inRange: "inRange 40 demoBoss 440 340"
  by (subst inRange_iff) (simp_all add: demoBoss_def bossButterfly_def new_Butterfly_def Let_def)

lemma demoBoss_fields: "isBoss demoBoss" "health demoBoss = 5"
  by (simp_all add: demoBoss_def bossButterfly_def new_Butterfly_def Let_def)

theorem boss_health_drain_witness:
  "isBoss demoBoss \<and> health demoBoss = 5 \<and> inRange 40 demoBoss 440 340
   \<and> fst (checkCatches 40 demoBoss demoClicks (constTape (1/2)))
       = [False, False, False, False, True]
   \<and> fst (checkCatch 40 demoBoss 440 340 (constTape (1/2))) = False
   \<and> health (fst (snd (checkCatch 40 demoBoss 440 340 (constTape (1/2))))) = 4"
proof -
  let ?rs = "fst (checkCatches 40 demoBoss demoClicks (constTape (1/2)))"
  note T = boss_health_drain[of demoBoss 40 demoClicks "constTape (1/2)" 440 340]
  have len: "length ?rs = 5" using T demoBoss_fields by (simp add: demoClicks_def)
  have nth: "\<And>k. k < 5 \<Longrightarrow> ?rs ! k = (k = 4)"
  proof -
    fix k :: nat
    assume k: "k < 5"
    have "?rs ! k = (inRange 40 demoBoss (fst (demoClicks ! k)) (snd (demoClicks ! k)) \<and>
            5 \<le> length (filter (\<lambda>c. inRange 40 demoBoss (fst c) (snd c)) (take (Suc k) demoClicks)))"
      using T demoBoss_fields k by (simp add: demoClicks_def)
    also have "\<dots> = (k = 4)"
      using k demoBoss_inRange by (auto simp add: demoClicks_def min_def)
    finally show "?rs ! k = (k = 4)" .
  qed
  have "?rs = [False, False, False, False, True]"
    using len nth by (auto simp add: list_eq_iff_nth_eq less_Suc_eq nth_Cons')
  moreover have "checkCatch 40 demoBoss 440 340 (constTape (1/2)) =
      (False,
       demoBoss\<lparr>health := health demoBoss - 1, speed := speed demoBoss * 1.1,
         direction := draw (constTape (1/2)) * pi * 2,
         vx := cos (draw (constTape (1/2)) * pi * 2) * (speed demoBoss * 1.1),
         vy := sin (draw (constTape (1/2)) * pi * 2) * (speed demoBoss * 1.1)\<rparr>,
       rest (constTape (1/2)))"
    using T demoBoss_fields demoBoss_inRange by simp
  ultimately show ?thesis using demoBoss_fields demoBoss_inRange by simp
qed

subsection \<open>Leaving the screen\<close>

lemma wobble_flags:
  "hasCrossedScreen (fst (wobble b t)) = hasCrossedScreen b"
  "shouldRemove (fst (wobble b t)) = shouldRemove b"
  by (simp_all add: wobble_def Let_def)

lemma visible_not_offScreen: "isVisible cw ch b \<Longrightarrow> \<not> offScreen cw ch b"
  by (auto simp: isVisible_def offScreen_def margin_def)

lemma trackCrossing_fields:
  "xpos (trackCrossing cw ch b) = xpos b"
  "ypos (trackCrossing cw ch b) = ypos b"
  "shouldRemove (trackCrossing cw ch b) = shouldRemove b"
  by (simp_all add: trackCrossing_def Let_def)

lemma trackCrossing_crossed:
  "hasCrossedScreen (trackCrossing cw ch b) = (hasCrossedScreen b \<or> isVisible cw ch b)"
  by (simp add: trackCrossing_def Let_def)

lemma offScreen_trackCrossing: "offScreen cw ch (trackCrossing cw ch b) = offScreen cw ch b"
  by (simp add: offScreen_def trackCrossing_fields)

lemma flagRemoval_shouldRemove:
  "shouldRemove (flagRemoval cw ch b) =
     (shouldRemove b \<or> (offScreen cw ch b \<and> hasCrossedScreen b))"
  by (simp add: flagRemoval_def)

lemma flagRemoval_fields:
  "hasCrossedScreen (flagRemoval cw ch b) = hasCrossedScreen b"
  "offScreen cw ch (flagRemoval cw ch b) = offScreen cw ch b"
  by (simp_all add: flagRemoval_def offScreen_def)

lemma update_Butterfly_fst:
  "fst (update_Butterfly cw ch dt b t) = flagRemoval cw ch (trackCrossing cw ch (moved dt b t))"
  by (simp add: update_Butterfly_def moved_def Let_def case_prod_beta)

lemma moved_flags:
  "hasCrossedScreen (moved dt b t) = hasCrossedScreen b"
  "shouldRemove (moved dt b t) = shouldRemove b"
  by (simp_all add: moved_def Let_def wobble_flags)

lemma update_position:
  "xpos (fst (update_Butterfly cw ch dt b t)) = xpos (moved dt b t)"
  "ypos (fst (update_Butterfly cw ch dt b t)) = ypos (moved dt b t)"
  by (simp_all add: update_Butterfly_fst flagRemoval_def trackCrossing_fields)

lemma update_shouldRemove:
  "shouldRemove (fst (update_Butterfly cw ch dt b t)) =
     (shouldRemove b \<or>
      (hasCrossedScreen b \<and> offScreen cw ch (fst (update_Butterfly cw ch dt b t))))"
  using visible_not_offScreen[of cw ch "moved dt b t"]
  by (auto simp add: update_Butterfly_fst flagRemoval_shouldRemove flagRemoval_fields
      offScreen_trackCrossing trackCrossing_fields trackCrossing_crossed moved_flags)

lemma update_hasCrossed:
  "hasCrossedScreen (fst (update_Butterfly cw ch dt b t)) =
     (hasCrossedScreen b \<or> isVisible cw ch (moved dt b t))"
  by (simp add: update_Butterfly_fst flagRemoval_fields trackCrossing_crossed moved_flags)

lemma updates_hasCrossed_mono:
  "hasCrossedScreen b \<Longrightarrow> hasCrossedScreen (fst (updates_Butterfly cw ch dts b t))"
proof (induction dts arbitrary: b t)
  case Nil
  then show ?case by simp
next
  case (Cons dt dts)
  obtain b' t' where u: "update_Butterfly cw ch dt b t = (b', t')"
    by (cases "update_Butterfly cw ch dt b t")
  have "hasCrossedScreen b'"
    using update_hasCrossed[of cw ch dt b t] u Cons.prems by simp
  from Cons.IH[OF this] show ?case using u by simp
qed

lemma updates_uncrossed:
  "\<not> hasCrossedScreen (fst (updates_Butterfly cw ch dts b t)) \<Longrightarrow>
   shouldRemove (fst (updates_Butterfly cw ch dts b t)) = shouldRemove b"
proof (induction dts arbitrary: b t)
  case Nil
  then show ?case by simp
next
  case (Cons dt dts)
  obtain b' t' where u: "update_Butterfly cw ch dt b t = (b', t')"
    by (cases "update_Butterfly cw ch dt b t")
  have 1: "\<not> hasCrossedScreen (fst (updates_Butterfly cw ch dts b' t'))"
    using Cons.prems u by simp
  have 2: "shouldRemove (fst (updates_Butterfly cw ch dts b' t')) = shouldRemove b'"
    using Cons.IH[OF 1] .
  have nb': "\<not> hasCrossedScreen b'"
    using 1 updates_hasCrossed_mono[of b' cw ch dts t'] by blast
  have nb: "\<not> hasCrossedScreen b"
    using nb' update_hasCrossed[of cw ch dt b t] u by simp
  have "shouldRemove b' = shouldRemove b"
    using update_shouldRemove[of cw ch dt b t] nb u by simp
  then show ?case using 2 u by simp
qed

text \<open>
  C5. An update of a butterfly that has not crossed the screen leaves \<open>shouldRemove\<close> as it
  was, wherever the butterfly is, and over any sequence of updates the flag stays as it was
  for as long as the butterfly has not crossed. An update of a butterfly that has crossed and
  is not yet flagged sets the flag exactly when the position it has moved to is more than
  100 px outside the canvas on some side. In one statement: an update flags an unflagged
  butterfly exactly when, after it, the butterfly has crossed and is beyond the margin.
\<close>

theorem offscreen_removal:
  "(\<not> hasCrossedScreen b \<longrightarrow>
      shouldRemove (fst (update_Butterfly cw ch dt b t)) = shouldRemove b)
   \<and> (\<not> hasCrossedScreen (fst (updates_Butterfly cw ch dts b t)) \<longrightarrow>
        shouldRemove (fst (updates_Butterfly cw ch dts b t)) = shouldRemove b)
   \<and> (hasCrossedScreen b \<and> \<not> shouldRemove b \<longrightarrow>
        shouldRemove (fst (update_Butterfly cw ch dt b t)) =
          (xpos (fst (update_Butterfly cw ch dt b t)) < - 100
           \<or> xpos (fst (update_Butterfly cw ch dt b t)) > cw + 100
           \<or> ypos (fst (update_Butterfly cw ch dt b t)) < - 100
           \<or> ypos (fst (update_Butterfly cw ch dt b t)) > ch + 100))
   \<and> (\<not> shouldRemove b \<longrightarrow>
        shouldRemove (fst (update_Butterfly cw ch dt b t)) =
          (hasCrossedScreen (fst (update_Butterfly cw ch dt b t))
           \<and> (xpos (fst (update_Butterfly cw ch dt b t)) < - 100
                \<or> xpos (fst (update_Butterfly cw ch dt b t)) > cw + 100
                \<or> ypos (fst (update_Butterfly cw ch dt b t)) < - 100
                \<or> ypos (fst (update_Butterfly cw ch dt b t)) > ch + 100)))"
proof (intro conjI impI)
  assume "\<not> shouldRemove b"
  then have "shouldRemove (fst (update_Butterfly cw ch dt b t)) =
      (hasCrossedScreen (fst (update_Butterfly cw ch dt b t))
       \<and> offScreen cw ch (fst (update_Butterfly cw ch dt b t)))"
    using update_shouldRemove[of cw ch dt b t] update_hasCrossed[of cw ch dt b t]
      visible_not_offScreen[of cw ch "moved dt b t"]
    by (auto simp add: update_Butterfly_fst flagRemoval_fields offScreen_trackCrossing)
  then show "shouldRemove (fst (update_Butterfly cw ch dt b t)) =
          (hasCrossedScreen (fst (update_Butterfly cw ch dt b t))
           \<and> (xpos (fst (update_Butterfly cw ch dt b t)) < - 100
                \<or> xpos (fst (update_Butterfly cw ch dt b t)) > cw + 100
                \<or> ypos (fst (update_Butterfly cw ch dt b t)) < - 100
                \<or> ypos (fst (update_Butterfly cw ch dt b t)) > ch + 100))"
    by (simp add: offScreen_def margin_def)
next
  assume "\<not> hasCrossedScreen b"
  then show "shouldRemove (fst (update_Butterfly cw ch dt b t)) = shouldRemove b"
    using update_shouldRemove[of cw ch dt b t] by simp
next
  assume "\<not> hasCrossedScreen (fst (updates_Butterfly cw ch dts b t))"
  then show "shouldRemove (fst (updates_Butterfly cw ch dts b t)) = shouldRemove b"
    by (rule updates_uncrossed)
next
  assume "hasCrossedScreen b \<and> \<not> shouldRemove b"
  then have "shouldRemove (fst (update_Butterfly cw ch dt b t)) =
      offScreen cw ch (fst (update_Butterfly cw ch dt b t))"
    using update_shouldRemove[of cw ch dt b t] by simp
  then show "shouldRemove (fst (update_Butterfly cw ch dt b t)) =
          (xpos (fst (update_Butterfly cw ch dt b t)) < - 100
           \<or> xpos (fst (update_Butterfly cw ch dt b t)) > cw + 100
           \<or> ypos (fst (update_Butterfly cw ch dt b t)) < - 100
           \<or> ypos (fst (update_Butterfly cw ch dt b t)) > ch + 100)"
    by (simp add: offScreen_def margin_def)
qed

lemma farButterfly_update:
  "xpos (fst (update_Butterfly 800 600 1 farButterfly (constTape (1/2)))) = - 5095"
  "\<not> hasCrossedScreen (fst (update_Butterfly 800 600 1 farButterfly (constTape (1/2))))"
  by (simp_all add: update_position update_hasCrossed moved_def wobble_def farButterfly_def
      new_Butterfly_def isVisible_def Let_def)

lemma crossedButterfly_update:
  "xpos (fst (update_Butterfly 800 600 1 crossedButterfly (constTape (1/2)))) = 945"
  "ypos (fst (update_Butterfly 800 600 1 crossedButterfly (constTape (1/2)))) = 300"
  by (simp_all add: update_position moved_def wobble_def crossedButterfly_def
      new_Butterfly_def Let_def)

theorem offscreen_removal_witness:
  "\<not> hasCrossedScreen farButterfly
   \<and> \<not> hasCrossedScreen (fst (updates_Butterfly 800 600 [1] farButterfly (constTape (1/2))))
   \<and> xpos (fst (update_Butterfly 800 600 1 farButterfly (constTape (1/2)))) = - 5095
   \<and> \<not> shouldRemove (fst (update_Butterfly 800 600 1 farButterfly (constTape (1/2))))
   \<and> \<not> shouldRemove (fst (updates_Butterfly 800 600 [1] farButterfly (constTape (1/2))))
   \<and> hasCrossedScreen crossedButterfly \<and> \<not> shouldRemove crossedButterfly
   \<and> shouldRemove (fst (update_Butterfly 800 600 1 crossedButterfly (constTape (1/2))))"
proof -
  have far: "\<not> hasCrossedScreen farButterfly" "\<not> shouldRemove farButterfly"
    by (simp_all add: farButterfly_def new_Butterfly_def)
  have far1: "\<not> hasCrossedScreen (fst (updates_Butterfly 800 600 [1] farButterfly (constTape (1/2))))"
    using farButterfly_update(2) by (simp add: case_prod_beta)
  have crossed: "hasCrossedScreen crossedButterfly" "\<not> shouldRemove crossedButterfly"
    by (simp_all add: crossedButterfly_def new_Butterfly_def)
  show ?thesis
    using offscreen_removal[of farButterfly 800 600 1 "constTape (1/2)" "[1]"]
      offscreen_removal[of crossedButterfly 800 600 1 "constTape (1/2)" "[]"]
      far far1 crossed farButterfly_update(1) crossedButterfly_update
    by simp
qed

section \<open>Properties of the game\<close>

subsection \<open>Level completion\<close>

text \<open>
  C2. \<^verbatim>\<open>levelComplete\<close> called while \<open>isLevelTransitioning\<close> is true returns the state as
  it was: the level, the score, the butterflies, the pending insertions and the transition
  fields are all unchanged.
\<close>

theorem levelComplete_reentrant_noop:
  "isLevelTransitioning s \<Longrightarrow> levelComplete fastTransition now s = s"
  by (simp add: levelComplete_def)

lemma transitioningGame_fields:
  "isLevelTransitioning transitioningGame" "currentLevel transitioningGame = 2"
  by (simp_all add: transitioningGame_def levelComplete_def start_def demoGame_def init_def
      showStartScreen_def loadAssets_def new_Game_def Let_def)

theorem levelComplete_reentrant_noop_witness:
  "isLevelTransitioning transitioningGame
   \<and> levelComplete True 5016 transitioningGame = transitioningGame
   \<and> currentLevel (levelComplete True 5016 transitioningGame) = 2"
  using levelComplete_reentrant_noop[of transitioningGame True 5016] transitioningGame_fields
  by simp

subsection \<open>Clicks\<close>

lemma sameButterfly_refl: "sameButterfly b b"
  by (simp add: sameButterfly_def)

lemma sameButterfly_trans:
  "sameButterfly a b \<Longrightarrow> sameButterfly b c \<Longrightarrow> sameButterfly a c"
  by (simp add: sameButterfly_def)

lemma sameButterfly_checkCatch: "sameButterfly b (fst (snd (checkCatch nr b x y t)))"
  by (simp add: checkCatch_def Let_def sameButterfly_def blank_def)

lemma sameButterfly_list_update:
  "i < length bs \<Longrightarrow> sameButterfly (bs ! i) b \<Longrightarrow> list_all2 sameButterfly bs (bs[i := b])"
  by (auto simp: list_all2_conv_all_nth nth_list_update sameButterfly_refl)

lemma sameButterfly_list_trans:
  "list_all2 sameButterfly as bs \<Longrightarrow> list_all2 sameButterfly bs cs
   \<Longrightarrow> list_all2 sameButterfly as cs"
  using list_all2_trans[of sameButterfly sameButterfly sameButterfly as bs cs] sameButterfly_trans
  by blast

text \<open>A click that is in range of no butterfly below index \<open>n\<close> changes nothing there.\<close>

lemma catchLoop_out_of_range:
  "n \<le> length (butterflies s) \<Longrightarrow>
   \<forall>j<n. \<not> inRange (netRadius s) (butterflies s ! j) x y \<Longrightarrow>
   catchLoop n x y s = s"
proof (induction n arbitrary: s)
  case 0
  then show ?case by simp
next
  case (Suc n)
  have "\<not> inRange (netRadius s) (butterflies s ! n) x y" using Suc.prems by simp
  then have cc: "checkCatch (netRadius s) (butterflies s ! n) x y (random s)
      = (False, butterflies s ! n, random s)"
    by (rule checkCatch_miss)
  have "catchLoop (Suc n) x y s = catchLoop n x y s" using cc by simp
  then show ?case using Suc by simp
qed

text \<open>The loop stops at the highest index below \<open>n\<close> at which \<^verbatim>\<open>checkCatch\<close> succeeds.\<close>

lemma catchLoop_catch:
  "n \<le> length (butterflies s) \<Longrightarrow> i < n \<Longrightarrow>
   catches (netRadius s) (butterflies s ! i) x y \<Longrightarrow>
   \<forall>j. i < j \<and> j < n \<longrightarrow> \<not> catches (netRadius s) (butterflies s ! j) x y \<Longrightarrow>
   caughtAt i s (catchLoop n x y s)"
proof (induction n arbitrary: s)
  case 0
  then show ?case by simp
next
  case (Suc n)
  let ?bs = "butterflies s"
  obtain c b t where cc: "checkCatch (netRadius s) (?bs ! n) x y (random s) = (c, b, t)"
    by (cases "checkCatch (netRadius s) (?bs ! n) x y (random s)")
  have n: "n < length ?bs" using Suc.prems(1) by simp
  have b: "b = fst (snd (checkCatch (netRadius s) (?bs ! n) x y (random s)))" using cc by simp
  have c: "c = catches (netRadius s) (?bs ! n) x y"
    using cc checkCatch_catches[of "netRadius s" "?bs ! n" x y "random s"] by simp
  have sb: "sameButterfly (?bs ! n) b" unfolding b by (rule sameButterfly_checkCatch)
  have lv: "level b = level (?bs ! n)" unfolding b by (rule checkCatch_level)
  have all: "list_all2 sameButterfly ?bs (?bs[n := b])"
    using n sb by (rule sameButterfly_list_update)
  let ?s1 = "s\<lparr>butterflies := ?bs[n := b], random := t\<rparr>"
  show ?case
  proof (cases "i = n")
    case True
    then have "c" using c Suc.prems(3) by simp
    then show ?thesis
      using cc True all lv by (auto simp: caughtAt_def Let_def)
  next
    case False
    then have i: "i < n" using Suc.prems(2) by simp
    have "\<not> c" using c Suc.prems(4) i by simp
    then have eq: "catchLoop (Suc n) x y s = catchLoop n x y ?s1" using cc by (simp add: Let_def)
    have 1: "n \<le> length (butterflies ?s1)" using n by simp
    have 3: "catches (netRadius ?s1) (butterflies ?s1 ! i) x y"
      using Suc.prems(3) i by simp
    have 4: "\<forall>j. i < j \<and> j < n \<longrightarrow> \<not> catches (netRadius ?s1) (butterflies ?s1 ! j) x y"
      using Suc.prems(4) by simp
    have ca: "caughtAt i ?s1 (catchLoop n x y ?s1)" using Suc.IH[OF 1 i 3 4] .
    then obtain bs' where bs': "list_all2 sameButterfly (?bs[n := b]) bs'"
      "take i bs' = take i (?bs[n := b])" "butterflies (catchLoop n x y ?s1) = splice1 i bs'"
      by (auto simp: caughtAt_def)
    have 5: "list_all2 sameButterfly ?bs bs'"
      using all bs'(1) by (rule sameButterfly_list_trans)
    have 6: "take i bs' = take i ?bs" using bs'(2) i by simp
    show ?thesis
      unfolding eq using ca 5 6 bs'(3) i by (auto simp: caughtAt_def)
  qed
qed

lemma catchLoop_no_catch:
  "n \<le> length (butterflies s) \<Longrightarrow>
   \<forall>j<n. \<not> catches (netRadius s) (butterflies s ! j) x y \<Longrightarrow>
   nothingCaught s (catchLoop n x y s)"
proof (induction n arbitrary: s)
  case 0
  then show ?case by (simp add: nothingCaught_def list_all2_refl sameButterfly_refl)
next
  case (Suc n)
  let ?bs = "butterflies s"
  obtain c b t where cc: "checkCatch (netRadius s) (?bs ! n) x y (random s) = (c, b, t)"
    by (cases "checkCatch (netRadius s) (?bs ! n) x y (random s)")
  have n: "n < length ?bs" using Suc.prems(1) by simp
  have b: "b = fst (snd (checkCatch (netRadius s) (?bs ! n) x y (random s)))" using cc by simp
  have c: "c = catches (netRadius s) (?bs ! n) x y"
    using cc checkCatch_catches[of "netRadius s" "?bs ! n" x y "random s"] by simp
  have sb: "sameButterfly (?bs ! n) b" unfolding b by (rule sameButterfly_checkCatch)
  have all: "list_all2 sameButterfly ?bs (?bs[n := b])"
    using n sb by (rule sameButterfly_list_update)
  let ?s1 = "s\<lparr>butterflies := ?bs[n := b], random := t\<rparr>"
  have "\<not> c" using c Suc.prems(2) by simp
  then have eq: "catchLoop (Suc n) x y s = catchLoop n x y ?s1" using cc by (simp add: Let_def)
  have 1: "n \<le> length (butterflies ?s1)" using n by simp
  have 2: "\<forall>j<n. \<not> catches (netRadius ?s1) (butterflies ?s1 ! j) x y"
    using Suc.prems(2) by simp
  have "nothingCaught ?s1 (catchLoop n x y ?s1)" using Suc.IH[OF 1 2] .
  then show ?case
    unfolding eq using all by (auto simp: nothingCaught_def intro: sameButterfly_list_trans)
qed

text \<open>
  C3. A click during normal play. When \<^verbatim>\<open>checkCatch\<close> succeeds on some butterfly, the one
  caught is the last in the collection (the most recently spawned) on which it succeeds, a
  butterfly of level \<open>L\<close>: the score goes up by \<open>10 * L\<close>, the tally of level \<open>L\<close> by one, that
  butterfly is spliced out and every other one stays in place, the ones spawned before it
  untouched. When it succeeds on none, score, tallies and membership of the collection are
  as before, and when the click is in range of no butterfly the whole state is unchanged.
\<close>

theorem click_catches_one:
  "normalPlay s \<longrightarrow>
     (i < length (butterflies s)
      \<and> catches (netRadius s) (butterflies s ! i) x y
      \<and> (\<forall>j. i < j \<and> j < length (butterflies s)
             \<longrightarrow> \<not> catches (netRadius s) (butterflies s ! j) x y)
      \<longrightarrow> caughtAt i s (handleClick x y s)
          \<and> length (butterflies (handleClick x y s)) = length (butterflies s) - 1
          \<and> (\<forall>c. butterflyCounts s (level (butterflies s ! i)) = Some c \<longrightarrow>
                 butterflyCounts (handleClick x y s) (level (butterflies s ! i)) = Some (c + 1))
          \<and> (\<forall>k. k \<noteq> level (butterflies s ! i) \<longrightarrow>
                 butterflyCounts (handleClick x y s) k = butterflyCounts s k))
     \<and> ((\<forall>j<length (butterflies s). \<not> catches (netRadius s) (butterflies s ! j) x y)
        \<longrightarrow> nothingCaught s (handleClick x y s)
            \<and> length (butterflies (handleClick x y s)) = length (butterflies s))
     \<and> ((\<forall>j<length (butterflies s). \<not> inRange (netRadius s) (butterflies s ! j) x y)
        \<longrightarrow> handleClick x y s = s)"
proof (intro impI conjI)
  assume np: "normalPlay s"
  then have hc: "handleClick x y s = catchLoop (length (butterflies s)) x y s"
    by (simp add: handleClick_def normalPlay_def)
  {
    assume a: "i < length (butterflies s)
      \<and> catches (netRadius s) (butterflies s ! i) x y
      \<and> (\<forall>j. i < j \<and> j < length (butterflies s)
             \<longrightarrow> \<not> catches (netRadius s) (butterflies s ! j) x y)"
    have ca: "caughtAt i s (handleClick x y s)"
      unfolding hc using a by (intro catchLoop_catch) auto
    show "caughtAt i s (handleClick x y s)" by (rule ca)
    from ca obtain bs' where bs': "list_all2 sameButterfly (butterflies s) bs'"
      "butterflies (handleClick x y s) = splice1 i bs'"
      by (auto simp: caughtAt_def)
    have "length bs' = length (butterflies s)" using bs'(1) by (simp add: list_all2_lengthD)
    then show "length (butterflies (handleClick x y s)) = length (butterflies s) - 1"
      using bs'(2) a by (auto simp: splice1_def)
    show "\<forall>c. butterflyCounts s (level (butterflies s ! i)) = Some c \<longrightarrow>
                 butterflyCounts (handleClick x y s) (level (butterflies s ! i)) = Some (c + 1)"
      using ca by (simp add: caughtAt_def increment_def)
    show "\<forall>k. k \<noteq> level (butterflies s ! i) \<longrightarrow>
                 butterflyCounts (handleClick x y s) k = butterflyCounts s k"
      using ca by (simp add: caughtAt_def increment_def)
  }
  {
    assume a: "\<forall>j<length (butterflies s). \<not> catches (netRadius s) (butterflies s ! j) x y"
    have nc: "nothingCaught s (handleClick x y s)"
      unfolding hc using a by (intro catchLoop_no_catch) auto
    show "nothingCaught s (handleClick x y s)" by (rule nc)
    show "length (butterflies (handleClick x y s)) = length (butterflies s)"
      using nc list_all2_lengthD[of sameButterfly "butterflies s" "butterflies (handleClick x y s)"]
      by (simp add: nothingCaught_def)
  }
  {
    assume a: "\<forall>j<length (butterflies s). \<not> inRange (netRadius s) (butterflies s ! j) x y"
    show "handleClick x y s = s"
      unfolding hc using a by (intro catchLoop_out_of_range) auto
  }
qed

text \<open>
  C10. A click in range of a boss that keeps health after the hit, and in range of the
  butterfly spawned just before it, which is not a boss: the boss is damaged (one health
  point less, speed times 1.1, heading redrawn) and the same click goes on to catch the
  other butterfly, with its score and tally.
\<close>

theorem click_damages_boss_and_catches:
  assumes "normalPlay s" and "butterflies s = pre @ [m, boss]"
    and "isBoss boss" and "1 < health boss" and "inRange (netRadius s) boss x y"
    and "\<not> isBoss m" and "inRange (netRadius s) m x y"
  shows "handleClick x y s =
     s\<lparr>butterflies :=
         pre @ [boss\<lparr>health := health boss - 1, speed := speed boss * 1.1,
                  direction := draw (random s) * pi * 2,
                  vx := cos (draw (random s) * pi * 2) * (speed boss * 1.1),
                  vy := sin (draw (random s) * pi * 2) * (speed boss * 1.1)\<rparr>],
       random := rest (random s),
       score := score s + level m * 10,
       butterflyCounts := increment (butterflyCounts s) (level m)\<rparr>"
proof -
  have len: "length (butterflies s) = Suc (Suc (length pre))" using assms(2) by simp
  show ?thesis using assms(1)
    by (simp add: handleClick_def normalPlay_def len assms(2) nth_append
        checkCatch_hit[OF assms(3,4,5)] checkCatch_plain[OF assms(6)] assms(7)
        Let_def splice1_def list_update_append)
qed

lemma fold_zero_counts:
  "fold (\<lambda>i m. m(i \<mapsto> (0::int))) [a..b] m k = (if a \<le> k \<and> k \<le> b then Some 0 else m k)"
proof (induction a b arbitrary: m rule: upto.induct)
  case (1 a b)
  show ?case
  proof (cases "a \<le> b")
    case True
    then have "[a..b] = a # [a + 1..b]" by (simp add: upto_rec1)
    then show ?thesis using 1[OF True] True by auto
  next
    case False
    then show ?thesis by auto
  qed
qed

lemma fold_count_images:
  "fold (\<lambda>i n. n + (1::int)) [a..b] n = n + (if a \<le> b then b - a + 1 else 0)"
proof (induction a b arbitrary: n rule: upto.induct)
  case (1 a b)
  show ?case
  proof (cases "a \<le> b")
    case True
    then have "[a..b] = a # [a + 1..b]" by (simp add: upto_rec1)
    then show ?thesis using 1[OF True] True by auto
  next
    case False
    then show ?thesis by simp
  qed
qed

lemma demoGame_fields:
  "maxLevel demoGame = 10" "butterflyImages demoGame = 10" "netRadius demoGame = 40"
  "canvasWidth demoGame = 800" "canvasHeight demoGame = 600"
  "\<not> showingSummaryScreen demoGame" "random demoGame = constTape (1/2)"
  "timeouts demoGame = []" "countdownIntervals demoGame = 0" "lastTimestamp demoGame = 0"
  "\<not> showingNameInput demoGame" "levelTransitionStartTime demoGame = None"
  by (simp_all add: demoGame_def init_def showStartScreen_def loadAssets_def new_Game_def
      fold_count_images)

lemma start_fields:
  "normalPlay ((start s)\<lparr>countdownActive := False\<rparr>) = (\<not> showingSummaryScreen s)"
  "netRadius (start s) = netRadius s" "score (start s) = 0"
  "butterflyCounts (start s) k = (if 1 \<le> k \<and> k \<le> maxLevel s then Some 0 else butterflyCounts s k)"
  by (simp_all add: start_def normalPlay_def fold_zero_counts)

lemma nearButterfly_inRange: "inRange 40 nearButterfly 130 130"
  by (subst inRange_iff) (simp_all add: nearButterfly_def new_Butterfly_def)

lemma nearButterfly_out_of_range: "\<not> inRange 40 nearButterfly 700 500"
  by (subst inRange_iff) (simp_all add: nearButterfly_def new_Butterfly_def)

lemma nearButterfly_fields: "\<not> isBoss nearButterfly" "level nearButterfly = 1"
  by (simp_all add: nearButterfly_def new_Butterfly_def)

lemma clickGame_fields:
  "normalPlay clickGame" "netRadius clickGame = 40" "score clickGame = 0"
  "butterflies clickGame = [nearButterfly, nearButterfly]"
  "butterflyCounts clickGame 1 = Some 0"
  using start_fields(1)[of demoGame]
  by (simp_all add: clickGame_def normalPlay_def start_fields demoGame_fields)

theorem click_catches_one_witness:
  "normalPlay clickGame
   \<and> catches (netRadius clickGame) (butterflies clickGame ! 1) 130 130
   \<and> score (handleClick 130 130 clickGame) = 10
   \<and> butterflyCounts (handleClick 130 130 clickGame) 1 = Some 1
   \<and> length (butterflies (handleClick 130 130 clickGame)) = 1
   \<and> handleClick 700 500 clickGame = clickGame"
proof -
  have c: "catches 40 nearButterfly 130 130"
    using checkCatch_plain[OF nearButterfly_fields(1), of 40 130 130]
    by (simp add: catches_def nearButterfly_inRange)
  have 1: "1 < length (butterflies clickGame)
      \<and> catches (netRadius clickGame) (butterflies clickGame ! 1) 130 130
      \<and> (\<forall>j. 1 < j \<and> j < length (butterflies clickGame)
             \<longrightarrow> \<not> catches (netRadius clickGame) (butterflies clickGame ! j) 130 130)"
    using c by (simp add: clickGame_fields)
  have 2: "\<forall>j<length (butterflies clickGame).
      \<not> inRange (netRadius clickGame) (butterflies clickGame ! j) 700 500"
    using nearButterfly_out_of_range by (simp add: clickGame_fields less_Suc_eq)
  have ca: "caughtAt 1 clickGame (handleClick 130 130 clickGame)"
    and len: "length (butterflies (handleClick 130 130 clickGame)) = 1"
    and cnt: "butterflyCounts (handleClick 130 130 clickGame) 1 = Some 1"
    using click_catches_one[of clickGame 1 130 130] 1 clickGame_fields nearButterfly_fields
    by simp_all
  have miss: "handleClick 700 500 clickGame = clickGame"
    using click_catches_one[of clickGame 1 700 500] 2 clickGame_fields(1) by blast
  have "score (handleClick 130 130 clickGame) = 10"
    using ca by (simp add: caughtAt_def clickGame_fields nearButterfly_fields)
  then show ?thesis using 1 len cnt miss clickGame_fields(1) by simp
qed

lemma demoMinion_inRange: "inRange 40 demoMinion 440 340"
  by (subst inRange_iff)
    (simp_all add: demoMinion_def minionButterfly_def new_Butterfly_def Let_def)

lemma demoMinion_fields: "\<not> isBoss demoMinion" "level demoMinion = 9"
  by (simp_all add: demoMinion_def minionButterfly_def new_Butterfly_def Let_def)

lemma bossFight_fields:
  "normalPlay bossFight" "netRadius bossFight = 40" "score bossFight = 0"
  "butterflies bossFight = [] @ [demoMinion, demoBoss]"
  using start_fields(1)[of demoGame]
  by (simp_all add: bossFight_def normalPlay_def start_fields demoGame_fields)

theorem click_damages_boss_and_catches_witness:
  "normalPlay bossFight \<and> butterflies bossFight = [demoMinion, demoBoss]
   \<and> isBoss demoBoss \<and> 1 < health demoBoss \<and> inRange (netRadius bossFight) demoBoss 440 340
   \<and> \<not> isBoss demoMinion \<and> inRange (netRadius bossFight) demoMinion 440 340
   \<and> score (handleClick 440 340 bossFight) = 90
   \<and> map health (butterflies (handleClick 440 340 bossFight)) = [4]
   \<and> map isBoss (butterflies (handleClick 440 340 bossFight)) = [True]"
proof -
  have b: "inRange (netRadius bossFight) demoBoss 440 340"
    and m: "inRange (netRadius bossFight) demoMinion 440 340"
    and h: "1 < health demoBoss"
    using demoBoss_inRange demoMinion_inRange demoBoss_fields by (simp_all add: bossFight_fields)
  show ?thesis
    using click_damages_boss_and_catches[OF bossFight_fields(1,4) demoBoss_fields(1) h b
        demoMinion_fields(1) m]
      bossFight_fields demoBoss_fields demoMinion_fields b m
    by simp
qed

subsection \<open>Spawning\<close>

lemma placeOnEdge_fields:
  "level (fst (placeOnEdge cw ch e b t)) = level b"
  "isBoss (fst (placeOnEdge cw ch e b t)) = isBoss b"
  "health (fst (placeOnEdge cw ch e b t)) = health b"
  "speed (fst (placeOnEdge cw ch e b t)) = speed b"
  "width (fst (placeOnEdge cw ch e b t)) = width b"
  "height (fst (placeOnEdge cw ch e b t)) = height b"
  by (simp_all add: placeOnEdge_def)

lemma positionButterflyInFormation_fields:
  "level (fst (positionButterflyInFormation cw ch b f i c side t)) = level b"
  "isBoss (fst (positionButterflyInFormation cw ch b f i c side t)) = isBoss b"
  "health (fst (positionButterflyInFormation cw ch b f i c side t)) = health b"
  "speed (fst (positionButterflyInFormation cw ch b f i c side t)) = speed b"
  "width (fst (positionButterflyInFormation cw ch b f i c side t)) = width b"
  "height (fst (positionButterflyInFormation cw ch b f i c side t)) = height b"
  by (simp_all add: positionButterflyInFormation_def Let_def case_prod_beta placeOnEdge_fields)

lemma spawnMinion_fold:
  "fold spawnMinion [0..<n] s =
     s\<lparr>timeouts := timeouts s @
          map (\<lambda>i. (500 + real i * 100, minionButterfly (canvasWidth s) (canvasHeight s) i))
            [0..<n]\<rparr>"
proof (induction n)
  case 0
  then show ?case by simp
next
  case (Suc n)
  then show ?case by (simp add: spawnMinion_def)
qed

lemma spawnBossButterfly_eq:
  "spawnBossButterfly s =
     s\<lparr>random := rest (random s),
       timeouts := timeouts s @
         (1000, bossButterfly (canvasWidth s) (canvasHeight s) (random s)) #
         map (\<lambda>i. (500 + real i * 100, minionButterfly (canvasWidth s) (canvasHeight s) i))
           [0..<8],
       levelTimer := Some 0\<rparr>"
  by (simp add: spawnBossButterfly_def Let_def spawnMinion_fold)

lemma bossButterfly_fields:
  "isBoss (bossButterfly cw ch t)" "health (bossButterfly cw ch t) = 5"
  "level (bossButterfly cw ch t) = 10"
  "width (bossButterfly cw ch t) = width (new_Butterfly 10) * 2.5"
  "height (bossButterfly cw ch t) = height (new_Butterfly 10) * 2.5"
  "catchRadius (bossButterfly cw ch t) = catchRadius (new_Butterfly 10) * 0.7"
  "speed (bossButterfly cw ch t) = speed (new_Butterfly 10) * 0.8"
  by (simp_all add: bossButterfly_def Let_def) (simp add: new_Butterfly_def)

lemma minionButterfly_fields:
  "\<not> isBoss (minionButterfly cw ch i)" "level (minionButterfly cw ch i) = 9"
  "(minionButterfly cw ch i)\<lparr>xpos := 0, ypos := 0, direction := 0, vx := 0, vy := 0\<rparr>
     = new_Butterfly 9"
  "xpos (minionButterfly cw ch i) = cw / 2 + cos (2 * pi * real i / 8) * 150"
  "ypos (minionButterfly cw ch i) = ch / 2 + sin (2 * pi * real i / 8) * 150"
  "direction (minionButterfly cw ch i) = 2 * pi * real i / 8"
  by (simp_all add: minionButterfly_def Let_def new_Butterfly_def mult.commute)

lemma minionButterfly_on_circle:
  "(xpos (minionButterfly cw ch i) - cw / 2)\<^sup>2 + (ypos (minionButterfly cw ch i) - ch / 2)\<^sup>2
     = 150\<^sup>2"
proof -
  define a where "a = 2 * pi * real i / 8"
  have "(cos a * 150)\<^sup>2 + (sin a * 150)\<^sup>2 = 150\<^sup>2 * ((sin a)\<^sup>2 + (cos a)\<^sup>2)"
    by algebra
  also have "\<dots> = 150\<^sup>2" by (simp only: sin_cos_squared_add mult_1_right)
  finally have "(cos a * 150)\<^sup>2 + (sin a * 150)\<^sup>2 = (150::real)\<^sup>2" .
  moreover have "xpos (minionButterfly cw ch i) - cw / 2 = cos a * 150"
    "ypos (minionButterfly cw ch i) - ch / 2 = sin a * 150"
    by (simp_all only: minionButterfly_fields a_def add_diff_cancel_left')
  ultimately show ?thesis by (simp only:)
qed

text \<open>
  C7. The spawn of level 10 is \<^verbatim>\<open>spawnBossButterfly\<close>, which schedules exactly nine
  insertions and inserts nothing at once. The first, after 1000 ms, is the boss: a level-10 butterfly with width and height
  times 2.5, catch radius times 0.7, speed times 0.8, health 5 and \<open>isBoss\<close> set. The other
  eight, minion \<open>i\<close> after \<open>500 + 100 * i\<close> ms, are level-9 butterflies as the constructor
  makes them but for position, heading and velocity: minion \<open>i\<close> is on the circle of radius
  150 around the centre of the canvas at angle \<open>2\<pi>i/8\<close>, and that angle is its heading.
\<close>

theorem boss_level_spawn:
  "(min (max (currentLevel s) 1) (maxLevel s) = 10 \<longrightarrow>
      actuallySpawnButterflies wave s = spawnBossButterfly s)
   \<and> butterflies (spawnBossButterfly s) = butterflies s
   \<and> timeouts (spawnBossButterfly s) =
       timeouts s @
       (1000, bossButterfly (canvasWidth s) (canvasHeight s) (random s)) #
       map (\<lambda>i. (500 + 100 * real i, minionButterfly (canvasWidth s) (canvasHeight s) i)) [0..<8]
   \<and> isBoss (bossButterfly cw ch t) \<and> health (bossButterfly cw ch t) = 5
   \<and> level (bossButterfly cw ch t) = 10
   \<and> width (bossButterfly cw ch t) = 2.5 * width (new_Butterfly 10)
   \<and> height (bossButterfly cw ch t) = 2.5 * height (new_Butterfly 10)
   \<and> catchRadius (bossButterfly cw ch t) = 0.7 * catchRadius (new_Butterfly 10)
   \<and> speed (bossButterfly cw ch t) = 0.8 * speed (new_Butterfly 10)
   \<and> \<not> isBoss (minionButterfly cw ch i) \<and> level (minionButterfly cw ch i) = 9
   \<and> (minionButterfly cw ch i)\<lparr>xpos := 0, ypos := 0, direction := 0, vx := 0, vy := 0\<rparr>
       = new_Butterfly 9
   \<and> xpos (minionButterfly cw ch i) = cw / 2 + 150 * cos (2 * pi * real i / 8)
   \<and> ypos (minionButterfly cw ch i) = ch / 2 + 150 * sin (2 * pi * real i / 8)
   \<and> (xpos (minionButterfly cw ch i) - cw / 2)\<^sup>2 + (ypos (minionButterfly cw ch i) - ch / 2)\<^sup>2
       = 150\<^sup>2
   \<and> direction (minionButterfly cw ch i) = 2 * pi * real i / 8"
proof -
  have 0: "min (max (currentLevel s) 1) (maxLevel s) = 10 \<longrightarrow>
      actuallySpawnButterflies wave s = spawnBossButterfly s"
    by (simp add: actuallySpawnButterflies_def Let_def)
  have 1: "butterflies (spawnBossButterfly s) = butterflies s"
    by (simp add: spawnBossButterfly_eq)
  have 2: "timeouts (spawnBossButterfly s) =
       timeouts s @
       (1000, bossButterfly (canvasWidth s) (canvasHeight s) (random s)) #
       map (\<lambda>i. (500 + 100 * real i, minionButterfly (canvasWidth s) (canvasHeight s) i)) [0..<8]"
    by (simp add: spawnBossButterfly_eq mult.commute)
  have 3: "width (bossButterfly cw ch t) = 2.5 * width (new_Butterfly 10)"
    "height (bossButterfly cw ch t) = 2.5 * height (new_Butterfly 10)"
    "catchRadius (bossButterfly cw ch t) = 0.7 * catchRadius (new_Butterfly 10)"
    "speed (bossButterfly cw ch t) = 0.8 * speed (new_Butterfly 10)"
    by (simp_all add: bossButterfly_fields)
  have 4: "xpos (minionButterfly cw ch i) = cw / 2 + 150 * cos (2 * pi * real i / 8)"
    "ypos (minionButterfly cw ch i) = ch / 2 + 150 * sin (2 * pi * real i / 8)"
    by (simp_all add: minionButterfly_fields)
  show ?thesis
    using 0 1 2 3 4 bossButterfly_fields(1,2,3)[of cw ch t] minionButterfly_fields(1,2,3,6)[of cw ch i]
      minionButterfly_on_circle[of cw ch i]
    by blast
qed


lemma bossFight_levels: "currentLevel bossFight = 10" "maxLevel bossFight = 10"
  "timeouts bossFight = []"
  by (simp_all add: bossFight_def start_def demoGame_fields)

theorem boss_level_spawn_witness:
  "min (max (currentLevel bossFight) 1) (maxLevel bossFight) = 10
   \<and> length (timeouts (actuallySpawnButterflies 0 bossFight)) = 9
   \<and> map fst (timeouts (actuallySpawnButterflies 0 bossFight))
       = [1000, 500, 600, 700, 800, 900, 1000, 1100, 1200]
   \<and> map (isBoss \<circ> snd) (timeouts (actuallySpawnButterflies 0 bossFight))
       = [True, False, False, False, False, False, False, False, False]"
proof -
  have up: "[0..<8] = [0, 1, 2, 3, 4, 5, 6, 7]" by (simp add: upt_rec)
  show ?thesis
    using boss_level_spawn[of bossFight 0 800 600 "constTape (1/2)" 0]
    by (simp add: bossFight_levels up minionButterfly_fields bossButterfly_fields)
qed

subsection \<open>What each operation leaves alone\<close>

lemma level_new_Butterfly: "level (new_Butterfly lv) = lv" "\<not> isBoss (new_Butterfly lv)"
  by (simp_all add: new_Butterfly_def)

lemma spawnOne_shape:
  "\<exists>b t. spawnOne lv c i s = s\<lparr>random := t, timeouts := timeouts s @ [(real i * 50, b)]\<rparr>
         \<and> level b = lv \<and> \<not> isBoss b"
  unfolding spawnOne_def Let_def case_prod_beta
  by (intro exI conjI) (rule refl, simp_all add: positionButterflyInFormation_fields level_new_Butterfly)

lemma fold_spawnOne_shape:
  "\<exists>ws t. fold (spawnOne lv c) [0..<n] s = s\<lparr>random := t, timeouts := timeouts s @ ws\<rparr>
     \<and> length ws = n
     \<and> (\<forall>i<n. fst (ws ! i) = real i * 50 \<and> level (snd (ws ! i)) = lv \<and> \<not> isBoss (snd (ws ! i)))"
proof (induction n)
  case 0
  show ?case by (intro exI[of _ "[]"] exI[of _ "random s"]) simp
next
  case (Suc n)
  then obtain ws t where f: "fold (spawnOne lv c) [0..<n] s = s\<lparr>random := t, timeouts := timeouts s @ ws\<rparr>"
    and len: "length ws = n"
    and each: "\<forall>i<n. fst (ws ! i) = real i * 50 \<and> level (snd (ws ! i)) = lv \<and> \<not> isBoss (snd (ws ! i))"
    by blast
  let ?s' = "s\<lparr>random := t, timeouts := timeouts s @ ws\<rparr>"
  obtain b t' where o: "spawnOne lv c n ?s' = ?s'\<lparr>random := t', timeouts := timeouts ?s' @ [(real n * 50, b)]\<rparr>"
    and b: "level b = lv" "\<not> isBoss b"
    using spawnOne_shape[of lv c n ?s'] by blast
  have "fold (spawnOne lv c) [0..<Suc n] s = s\<lparr>random := t', timeouts := timeouts s @ (ws @ [(real n * 50, b)])\<rparr>"
    using f o by simp
  moreover have "length (ws @ [(real n * 50, b)]) = Suc n" using len by simp
  moreover have "\<forall>i<Suc n. fst ((ws @ [(real n * 50, b)]) ! i) = real i * 50
      \<and> level (snd ((ws @ [(real n * 50, b)]) ! i)) = lv \<and> \<not> isBoss (snd ((ws @ [(real n * 50, b)]) ! i))"
    using each len b by (auto simp: nth_append less_Suc_eq)
  ultimately show ?case by blast
qed

lemma actuallySpawnButterflies_shape:
  "\<exists>ws t lt. actuallySpawnButterflies w s = s\<lparr>random := t, timeouts := timeouts s @ ws, levelTimer := lt\<rparr>"
proof (cases "min (max (currentLevel s) 1) (maxLevel s) = 10")
  case True
  then have "actuallySpawnButterflies w s = spawnBossButterfly s"
    by (simp add: actuallySpawnButterflies_def Let_def)
  then show ?thesis unfolding spawnBossButterfly_eq by blast
next
  case False
  let ?lv = "min (max (currentLevel s) 1) (maxLevel s)"
  show ?thesis
  proof (cases "min (?lv - 1) (butterflyImages s - 1) < 0 \<or> min (?lv - 1) (butterflyImages s - 1) \<ge> butterflyImages s")
    case True
    then have "actuallySpawnButterflies w s = s\<lparr>random := random s, timeouts := timeouts s @ [], levelTimer := levelTimer s\<rparr>"
      using False by (simp add: actuallySpawnButterflies_def Let_def)
    then show ?thesis by blast
  next
    case valid: False
    obtain ws t where "fold (spawnOne ?lv 15) [0..<15] s = s\<lparr>random := t, timeouts := timeouts s @ ws\<rparr>"
      using fold_spawnOne_shape[of ?lv 15 15 s] by blast
    then have "actuallySpawnButterflies w s = s\<lparr>random := t, timeouts := timeouts s @ ws, levelTimer := Some 0\<rparr>"
      using False valid by (simp add: actuallySpawnButterflies_def Let_def)
    then show ?thesis by blast
  qed
qed

text \<open>The wave of a level below 10: fifteen insertions, 50 ms apart, all of that level.\<close>

lemma actuallySpawnButterflies_wave:
  assumes "1 \<le> currentLevel s" "currentLevel s < 10" "currentLevel s \<le> maxLevel s"
    "currentLevel s \<le> butterflyImages s"
  shows "\<exists>ws t. actuallySpawnButterflies w s =
            s\<lparr>random := t, timeouts := timeouts s @ ws, levelTimer := Some 0\<rparr>
          \<and> length ws = 15
          \<and> (\<forall>i<15. fst (ws ! i) = real i * 50 \<and> level (snd (ws ! i)) = currentLevel s
                 \<and> \<not> isBoss (snd (ws ! i)))"
proof -
  have lv: "min (max (currentLevel s) 1) (maxLevel s) = currentLevel s" using assms by simp
  obtain ws t where f: "fold (spawnOne (currentLevel s) 15) [0..<15] s = s\<lparr>random := t, timeouts := timeouts s @ ws\<rparr>"
    and rest: "length ws = 15" "\<forall>i<15. fst (ws ! i) = real i * 50 \<and> level (snd (ws ! i)) = currentLevel s \<and> \<not> isBoss (snd (ws ! i))"
    using fold_spawnOne_shape[of "currentLevel s" 15 15 s] by blast
  have "actuallySpawnButterflies w s = s\<lparr>random := t, timeouts := timeouts s @ ws, levelTimer := Some 0\<rparr>"
    using assms f by (simp add: actuallySpawnButterflies_def Let_def lv)
  then show ?thesis using rest by blast
qed

lemma spawnButterflies_shape:
  "\<exists>ws t lt. spawnButterflies w s =
     s\<lparr>hasPlayedInitialCountdown := True, random := t, timeouts := timeouts s @ ws, levelTimer := lt\<rparr>"
proof -
  obtain ws t lt where "actuallySpawnButterflies w (s\<lparr>hasPlayedInitialCountdown := True\<rparr>) =
      s\<lparr>hasPlayedInitialCountdown := True\<rparr>\<lparr>random := t,
        timeouts := timeouts (s\<lparr>hasPlayedInitialCountdown := True\<rparr>) @ ws, levelTimer := lt\<rparr>"
    using actuallySpawnButterflies_shape[of w "s\<lparr>hasPlayedInitialCountdown := True\<rparr>"] by blast
  then have "spawnButterflies w s =
     s\<lparr>hasPlayedInitialCountdown := True, random := t, timeouts := timeouts s @ ws, levelTimer := lt\<rparr>"
    by (simp add: spawnButterflies_def)
  then show ?thesis by blast
qed

lemma updateLoop_shape:
  "\<exists>bs t. updateLoop n dt s = s\<lparr>butterflies := bs, random := t\<rparr>"
proof (induction n arbitrary: s)
  case 0
  have "updateLoop 0 dt s = s\<lparr>butterflies := butterflies s, random := random s\<rparr>" by simp
  then show ?case by blast
next
  case (Suc n)
  obtain b t where u: "update_Butterfly (canvasWidth s) (canvasHeight s) dt (butterflies s ! n) (random s) = (b, t)"
    by (cases "update_Butterfly (canvasWidth s) (canvasHeight s) dt (butterflies s ! n) (random s)")
  let ?bs = "(butterflies s)[n := b]"
  let ?s1 = "s\<lparr>butterflies := (if shouldRemove b then splice1 n ?bs else ?bs), random := t\<rparr>"
  obtain bs' t' where "updateLoop n dt ?s1 = ?s1\<lparr>butterflies := bs', random := t'\<rparr>"
    using Suc.IH[of ?s1] by blast
  then have "updateLoop (Suc n) dt s = s\<lparr>butterflies := bs', random := t'\<rparr>"
    using u by (simp add: Let_def)
  then show ?case by blast
qed

lemma extraOne_shape:
  "\<exists>b t. extraOne f c side i s = s\<lparr>random := t, butterflies := butterflies s @ [b]\<rparr>"
  unfolding extraOne_def Let_def case_prod_beta by blast

lemma fold_extraOne_shape:
  "\<exists>bs t. fold (extraOne f c side) xs s = s\<lparr>random := t, butterflies := bs\<rparr>"
proof (induction xs arbitrary: s)
  case Nil
  have "fold (extraOne f c side) [] s = s\<lparr>random := random s, butterflies := butterflies s\<rparr>" by simp
  then show ?case by blast
next
  case (Cons i xs)
  obtain b t where o: "extraOne f c side i s = s\<lparr>random := t, butterflies := butterflies s @ [b]\<rparr>"
    using extraOne_shape by blast
  let ?s1 = "s\<lparr>random := t, butterflies := butterflies s @ [b]\<rparr>"
  obtain bs t' where "fold (extraOne f c side) xs ?s1 = ?s1\<lparr>random := t', butterflies := bs\<rparr>"
    using Cons.IH[of ?s1] by blast
  then have "fold (extraOne f c side) (i # xs) s = s\<lparr>random := t', butterflies := bs\<rparr>"
    using o by simp
  then show ?case by blast
qed

lemma extraSpawn_shape: "\<exists>bs t. extraSpawn s = s\<lparr>random := t, butterflies := bs\<rparr>"
proof (cases "\<not> isLevelTransitioning s \<and> length (butterflies s) < 20")
  case False
  then have "extraSpawn s = s\<lparr>random := random s, butterflies := butterflies s\<rparr>"
    by (auto simp add: extraSpawn_def)
  then show ?thesis by blast
next
  case True
  show ?thesis
  proof (cases "draw (random s) < 0.01")
    case False
    then have "extraSpawn s = s\<lparr>random := rest (random s), butterflies := butterflies s\<rparr>"
      using True by (simp add: extraSpawn_def)
    then show ?thesis by blast
  next
    case spawn: True
    define t4 where "t4 = rest (rest (rest (rest (random s))))"
    define f where "f = formationAt \<lfloor>draw (rest (random s)) * 5\<rfloor>"
    define c where "c = 3 + \<lfloor>draw (rest (rest (random s))) * 3\<rfloor>"
    define side where "side = \<lfloor>draw (rest (rest (rest (random s)))) * 4\<rfloor>"
    have e: "extraSpawn s = fold (extraOne f c side) [0..<nat c] (s\<lparr>random := t4\<rparr>)"
      using True spawn by (simp add: extraSpawn_def Let_def t4_def f_def c_def side_def)
    obtain bs t where "fold (extraOne f c side) [0..<nat c] (s\<lparr>random := t4\<rparr>) = s\<lparr>random := t4\<rparr>\<lparr>random := t, butterflies := bs\<rparr>"
      using fold_extraOne_shape[of f c side "[0..<nat c]" "s\<lparr>random := t4\<rparr>"] by blast
    then have "extraSpawn s = s\<lparr>random := t, butterflies := bs\<rparr>" using e by simp
    then show ?thesis by blast
  qed
qed

lemma catchLoop_shape:
  "\<exists>bs t sc cnt. catchLoop n x y s =
     s\<lparr>butterflies := bs, random := t, score := sc, butterflyCounts := cnt\<rparr>"
proof (induction n arbitrary: s)
  case 0
  have "catchLoop 0 x y s = s\<lparr>butterflies := butterflies s, random := random s, score := score s,
      butterflyCounts := butterflyCounts s\<rparr>" by simp
  then show ?case by blast
next
  case (Suc n)
  obtain c b t where cc: "checkCatch (netRadius s) (butterflies s ! n) x y (random s) = (c, b, t)"
    by (cases "checkCatch (netRadius s) (butterflies s ! n) x y (random s)")
  let ?s1 = "s\<lparr>butterflies := (butterflies s)[n := b], random := t\<rparr>"
  show ?case
  proof (cases c)
    case True
    then have "catchLoop (Suc n) x y s = s\<lparr>butterflies := splice1 n ((butterflies s)[n := b]),
        random := t, score := score s + level b * 10,
        butterflyCounts := increment (butterflyCounts s) (level b)\<rparr>"
      using cc by (simp add: Let_def)
    then show ?thesis by blast
  next
    case False
    obtain bs t' sc cnt where "catchLoop n x y ?s1 =
        ?s1\<lparr>butterflies := bs, random := t', score := sc, butterflyCounts := cnt\<rparr>"
      using Suc.IH[of ?s1] by blast
    then have "catchLoop (Suc n) x y s =
        s\<lparr>butterflies := bs, random := t', score := sc, butterflyCounts := cnt\<rparr>"
      using cc False by (simp add: Let_def)
    then show ?thesis by blast
  qed
qed

subsection \<open>Level progression\<close>

lemma advances_refl: "advances s s"
  by (simp add: advances_def)

lemma advances_levelComplete: "advances s (levelComplete f now s)"
  by (simp add: advances_def levelComplete_def gameComplete_def Let_def)

lemma levelComplete_level:
  "currentLevel (levelComplete f now s) =
     (if \<not> isLevelTransitioning s \<and> currentLevel s < maxLevel s then currentLevel s + 1
      else currentLevel s)"
  by (simp add: levelComplete_def gameComplete_def Let_def)

lemma updateLoop_levels:
  "currentLevel (updateLoop n dt s) = currentLevel s"
  "maxLevel (updateLoop n dt s) = maxLevel s"
  "isLevelTransitioning (updateLoop n dt s) = isLevelTransitioning s"
proof -
  obtain bs t where "updateLoop n dt s = s\<lparr>butterflies := bs, random := t\<rparr>"
    using updateLoop_shape by blast
  then show "currentLevel (updateLoop n dt s) = currentLevel s"
    "maxLevel (updateLoop n dt s) = maxLevel s"
    "isLevelTransitioning (updateLoop n dt s) = isLevelTransitioning s"
    by simp_all
qed

lemma extraSpawn_levels:
  "currentLevel (extraSpawn s) = currentLevel s"
  "maxLevel (extraSpawn s) = maxLevel s"
proof -
  obtain bs t where "extraSpawn s = s\<lparr>random := t, butterflies := bs\<rparr>"
    using extraSpawn_shape by blast
  then show "currentLevel (extraSpawn s) = currentLevel s" "maxLevel (extraSpawn s) = maxLevel s"
    by simp_all
qed

lemma advances_extraSpawn: "advances s s' \<Longrightarrow> advances s (extraSpawn s')"
  by (simp add: advances_def extraSpawn_levels)

lemma advances_levelTimer: "advances s s' \<Longrightarrow> advances s (s'\<lparr>levelTimer := v\<rparr>)"
  by (simp add: advances_def)

lemma advances_after_updateLoop:
  "advances (z\<lparr>levelTimer := v\<rparr>) s' \<Longrightarrow> z = updateLoop n dt s \<Longrightarrow> advances s s'"
  by (simp add: advances_def updateLoop_levels)

lemma advances_update: "advances s (update dt now s)"
proof -
  define z where "z = updateLoop (length (butterflies s)) dt s"
  define lt where "lt = (case levelTimer z of None \<Rightarrow> 0 | Some v \<Rightarrow> v) + dt"
  define s2 where "s2 = z\<lparr>levelTimer := Some lt\<rparr>"
  have a0: "advances s2 s2" by (rule advances_refl)
  have a1: "advances s2 ((levelComplete True now s2)\<lparr>levelTimer := Some 0\<rparr>)"
    by (intro advances_levelTimer advances_levelComplete)
  have a2: "advances s2 (extraSpawn ((levelComplete True now s2)\<lparr>levelTimer := Some 0\<rparr>))"
    by (intro advances_extraSpawn a1)
  have a3: "advances s2 (extraSpawn s2)" by (intro advances_extraSpawn a0)
  have lift: "\<And>s'. advances s2 s' \<Longrightarrow> advances s s'"
    unfolding s2_def by (erule advances_after_updateLoop) (rule z_def)
  have "update dt now s = s
      \<or> update dt now s = (levelComplete True now s2)\<lparr>levelTimer := Some 0\<rparr>
      \<or> update dt now s = extraSpawn ((levelComplete True now s2)\<lparr>levelTimer := Some 0\<rparr>)
      \<or> update dt now s = extraSpawn s2"
    unfolding update_def Let_def z_def[symmetric] lt_def[symmetric] s2_def[symmetric]
    by (simp split: if_split)
  then show ?thesis using advances_refl[of s] lift[OF a1] lift[OF a2] lift[OF a3] by metis
qed

lemma spawnButterflies_levels:
  "currentLevel (spawnButterflies w s) = currentLevel s"
  "maxLevel (spawnButterflies w s) = maxLevel s"
proof -
  obtain ws t lt where "spawnButterflies w s =
     s\<lparr>hasPlayedInitialCountdown := True, random := t, timeouts := timeouts s @ ws, levelTimer := lt\<rparr>"
    using spawnButterflies_shape by blast
  then show "currentLevel (spawnButterflies w s) = currentLevel s"
    "maxLevel (spawnButterflies w s) = maxLevel s"
    by simp_all
qed

lemma startNextLevel_levels:
  "currentLevel (startNextLevel s) = currentLevel s"
  "maxLevel (startNextLevel s) = maxLevel s"
  by (simp_all add: startNextLevel_def Let_def spawnButterflies_levels)

lemma advances_regularFrame: "advances s (regularFrame timestamp now s)"
proof -
  have "advances (s\<lparr>lastTimestamp := timestamp\<rparr>)
          (update ((timestamp - lastTimestamp s) / 1000) now (s\<lparr>lastTimestamp := timestamp\<rparr>))"
    by (rule advances_update)
  then show ?thesis by (simp add: regularFrame_def Let_def advances_def)
qed

lemma advances_gameLoop: "advances s (gameLoop timestamp now s)"
proof -
  have n: "advances s ((startNextLevel (s\<lparr>levelTransitionComplete := Some True\<rparr>))
                        \<lparr>levelTransitionStartTime := None\<rparr>)"
    by (simp add: advances_def startNextLevel_levels)
  have "gameLoop timestamp now s = s
      \<or> gameLoop timestamp now s = regularFrame timestamp now s
      \<or> gameLoop timestamp now s = (startNextLevel (s\<lparr>levelTransitionComplete := Some True\<rparr>))
                        \<lparr>levelTransitionStartTime := None\<rparr>"
    by (simp add: gameLoop_def Let_def split: option.split)
  then show ?thesis using advances_refl[of s] advances_regularFrame[of s timestamp now] n by metis
qed

lemma advances_handleClick: "advances s (handleClick x y s)"
proof -
  obtain bs t sc cnt where "catchLoop (length (butterflies s)) x y s =
     s\<lparr>butterflies := bs, random := t, score := sc, butterflyCounts := cnt\<rparr>"
    using catchLoop_shape by blast
  then show ?thesis by (simp add: handleClick_def advances_def)
qed

lemma advances_countdownTick: "advances s (countdownTick s)"
  by (simp add: countdownTick_def countdownCallback_def Let_def advances_def
      spawnButterflies_levels)

lemma advances_fireTimeout: "advances s (fireTimeout k s)"
  by (simp add: fireTimeout_def insertCallback_def advances_def)

lemma advances_step: "advances s (step s e)"
  by (cases e)
    (simp_all add: advances_gameLoop advances_handleClick advances_countdownTick
      advances_fireTimeout)

lemma advances_bound:
  "advances s s' \<Longrightarrow> currentLevel s \<le> maxLevel s \<Longrightarrow>
   currentLevel s \<le> currentLevel s' \<and> currentLevel s' \<le> maxLevel s' \<and> maxLevel s' = maxLevel s"
  by (auto simp: advances_def)

lemma run_levels:
  "currentLevel s \<le> maxLevel s \<Longrightarrow>
   currentLevel s \<le> currentLevel (run s es) \<and> currentLevel (run s es) \<le> maxLevel s
   \<and> maxLevel (run s es) = maxLevel s"
proof (induction es arbitrary: s)
  case Nil
  then show ?case by (simp add: run_def)
next
  case (Cons e es)
  have 1: "currentLevel s \<le> currentLevel (step s e) \<and> currentLevel (step s e) \<le> maxLevel (step s e)
      \<and> maxLevel (step s e) = maxLevel s"
    using advances_bound[OF advances_step Cons.prems] .
  then have "currentLevel (step s e) \<le> maxLevel (step s e)" by simp
  from Cons.IH[OF this] 1 show ?case by (simp add: run_def)
qed

lemma run_append: "run s (es @ es') = run (run s es) es'"
  by (simp add: run_def)

text \<open>
  C1. In a session, over any sequence of frames, clicks, countdown ticks and insertions:
  \<open>currentLevel\<close> never decreases (the level after more events is at least the level after
  fewer), it never exceeds \<open>maxLevel\<close>, which stays 10, and one event raises it by at most
  one. A \<^verbatim>\<open>levelComplete\<close> call that the transitioning guard does not ignore raises it by
  exactly one when it is below \<open>maxLevel\<close>, and leaves it otherwise.
\<close>

theorem level_progression:
  "maxLevel s = 10 \<and> currentLevel s \<le> 10 \<longrightarrow>
     currentLevel s \<le> currentLevel (run s es)
     \<and> currentLevel (run s es) \<le> currentLevel (run s (es @ es'))
     \<and> currentLevel (run s (es @ es')) \<le> 10
     \<and> maxLevel (run s es) = 10
     \<and> (currentLevel (step s e) = currentLevel s \<or> currentLevel (step s e) = currentLevel s + 1)
     \<and> (\<not> isLevelTransitioning s \<and> currentLevel s < maxLevel s \<longrightarrow>
          currentLevel (levelComplete fastTransition now s) = currentLevel s + 1)
     \<and> (\<not> currentLevel s < maxLevel s \<longrightarrow>
          currentLevel (levelComplete fastTransition now s) = currentLevel s)"
proof (intro impI)
  assume a: "maxLevel s = 10 \<and> currentLevel s \<le> 10"
  then have le: "currentLevel s \<le> maxLevel s" by simp
  have 1: "currentLevel s \<le> currentLevel (run s es) \<and> currentLevel (run s es) \<le> maxLevel s
      \<and> maxLevel (run s es) = maxLevel s"
    using run_levels[OF le] .
  then have le': "currentLevel (run s es) \<le> maxLevel (run s es)" by simp
  have 2: "currentLevel (run s es) \<le> currentLevel (run s (es @ es'))
      \<and> currentLevel (run s (es @ es')) \<le> maxLevel (run s es)"
    using run_levels[OF le', of es'] by (simp add: run_append)
  have 3: "currentLevel (step s e) = currentLevel s \<or> currentLevel (step s e) = currentLevel s + 1"
    using advances_step[of s e] by (auto simp: advances_def)
  show "currentLevel s \<le> currentLevel (run s es)
     \<and> currentLevel (run s es) \<le> currentLevel (run s (es @ es'))
     \<and> currentLevel (run s (es @ es')) \<le> 10
     \<and> maxLevel (run s es) = 10
     \<and> (currentLevel (step s e) = currentLevel s \<or> currentLevel (step s e) = currentLevel s + 1)
     \<and> (\<not> isLevelTransitioning s \<and> currentLevel s < maxLevel s \<longrightarrow>
          currentLevel (levelComplete fastTransition now s) = currentLevel s + 1)
     \<and> (\<not> currentLevel s < maxLevel s \<longrightarrow>
          currentLevel (levelComplete fastTransition now s) = currentLevel s)"
    using 1 2 3 a by (simp add: levelComplete_level)
qed

lemma start_levels:
  "currentLevel (start s) = 1" "maxLevel (start s) = maxLevel s"
  "\<not> isLevelTransitioning (start s)" "countdownActive (start s)" "countdownTime (start s) = 3"
  "countdownIntervals (start s) = Suc (countdownIntervals s)"
  "timeouts (start s) = timeouts s" "butterflies (start s) = []"
  "butterflyImages (start s) = butterflyImages s"
  by (simp_all add: start_def)

theorem level_progression_witness:
  "maxLevel (start demoGame) = 10 \<and> currentLevel (start demoGame) \<le> 10
   \<and> \<not> isLevelTransitioning (start demoGame)
   \<and> currentLevel (start demoGame) < maxLevel (start demoGame)
   \<and> currentLevel (levelComplete True 5000 (start demoGame)) = 2
   \<and> 1 \<le> currentLevel (run (start demoGame) [Tick, Frame 1016 1016, Click 5 5])
   \<and> currentLevel (run (start demoGame) [Tick, Frame 1016 1016, Click 5 5]) \<le> 10
   \<and> maxLevel bossFight = 10 \<and> \<not> currentLevel bossFight < maxLevel bossFight
   \<and> currentLevel (levelComplete True 5000 bossFight) = 10"
  using level_progression[of "start demoGame" "[]" "[Tick, Frame 1016 1016, Click 5 5]" Tick True 5000]
    level_progression[of bossFight "[]" "[]" Tick True 5000]
  by (simp add: start_levels demoGame_fields bossFight_levels)

subsection \<open>The countdown\<close>

lemma handleClick_countdown: "countdownActive s \<Longrightarrow> handleClick x y s = s"
  by (simp add: handleClick_def)

lemma update_countdown: "countdownActive s \<Longrightarrow> update dt now s = s"
  by (simp add: update_def)

lemma countdownCallback_continue:
  "1 < countdownTime s \<Longrightarrow> countdownCallback s = s\<lparr>countdownTime := countdownTime s - 1\<rparr>"
  by (simp add: countdownCallback_def Let_def)

lemma countdownCallback_finish:
  assumes "countdownTime s \<le> 1" "currentLevel s = 1" "maxLevel s = 10" "1 \<le> butterflyImages s"
  shows "\<exists>ws t. countdownCallback s =
            s\<lparr>countdownTime := countdownTime s - 1,
              countdownIntervals := countdownIntervals s - 1,
              countdownActive := False, hasPlayedInitialCountdown := True,
              random := t, timeouts := timeouts s @ ws, levelTimer := Some 0\<rparr>
          \<and> length ws = 15
          \<and> (\<forall>i<15. fst (ws ! i) = 50 * real i \<and> level (snd (ws ! i)) = 1)"
proof -
  define z where "z = s\<lparr>countdownTime := countdownTime s - 1,
      countdownIntervals := countdownIntervals s - 1, countdownActive := False,
      levelTimer := Some 0, hasPlayedInitialCountdown := True\<rparr>"
  have c: "countdownCallback s = actuallySpawnButterflies 0 z"
    using assms(1) by (simp add: countdownCallback_def Let_def spawnButterflies_def z_def)
  have "1 \<le> currentLevel z" "currentLevel z < 10" "currentLevel z \<le> maxLevel z"
    "currentLevel z \<le> butterflyImages z"
    using assms by (simp_all add: z_def)
  from actuallySpawnButterflies_wave[OF this, of 0]
  obtain ws t where w: "actuallySpawnButterflies 0 z =
            z\<lparr>random := t, timeouts := timeouts z @ ws, levelTimer := Some 0\<rparr>"
    "length ws = 15"
    "\<forall>i<15. fst (ws ! i) = real i * 50 \<and> level (snd (ws ! i)) = currentLevel z
                 \<and> \<not> isBoss (snd (ws ! i))"
    by blast
  have "countdownCallback s =
            s\<lparr>countdownTime := countdownTime s - 1,
              countdownIntervals := countdownIntervals s - 1,
              countdownActive := False, hasPlayedInitialCountdown := True,
              random := t, timeouts := timeouts s @ ws, levelTimer := Some 0\<rparr>"
    unfolding c w(1) by (simp add: z_def)
  moreover have "\<forall>i<15. fst (ws ! i) = 50 * real i \<and> level (snd (ws ! i)) = 1"
    using w(3) assms(2) by (simp add: z_def mult.commute)
  ultimately show ?thesis using w(2) by blast
qed

text \<open>The three ticks of a session's countdown, and the tick that no longer comes.\<close>

lemma countdown_session:
  assumes "maxLevel g = 10" "1 \<le> butterflyImages g" "countdownIntervals g = 0"
  shows "run (start g) [Tick] = (start g)\<lparr>countdownTime := 2\<rparr>"
    and "run (start g) [Tick, Tick] = (start g)\<lparr>countdownTime := 1\<rparr>"
    and "\<exists>ws t. run (start g) [Tick, Tick, Tick] =
            (start g)\<lparr>countdownTime := 0, countdownIntervals := 0,
              countdownActive := False, hasPlayedInitialCountdown := True,
              random := t, timeouts := timeouts g @ ws, levelTimer := Some 0\<rparr>
          \<and> length ws = 15
          \<and> (\<forall>i<15. fst (ws ! i) = 50 * real i \<and> level (snd (ws ! i)) = 1)"
    and "run (start g) [Tick, Tick, Tick, Tick] = run (start g) [Tick, Tick, Tick]"
proof -
  let ?s0 = "start g"
  let ?s1 = "?s0\<lparr>countdownTime := 2\<rparr>"
  let ?s2 = "?s0\<lparr>countdownTime := 1\<rparr>"
  have t1: "countdownTick ?s0 = ?s1"
    using countdownCallback_continue[of ?s0]
    by (simp add: countdownTick_def start_levels)
  have t2: "countdownTick ?s1 = ?s2"
    using countdownCallback_continue[of ?s1]
    by (simp add: countdownTick_def start_levels)
  have "countdownTime ?s2 \<le> 1" "currentLevel ?s2 = 1" "maxLevel ?s2 = 10" "1 \<le> butterflyImages ?s2"
    using assms by (simp_all add: start_levels)
  from countdownCallback_finish[OF this]
  obtain ws t where w: "countdownCallback ?s2 =
            ?s2\<lparr>countdownTime := countdownTime ?s2 - 1,
              countdownIntervals := countdownIntervals ?s2 - 1,
              countdownActive := False, hasPlayedInitialCountdown := True,
              random := t, timeouts := timeouts ?s2 @ ws, levelTimer := Some 0\<rparr>"
    "length ws = 15" "\<forall>i<15. fst (ws ! i) = 50 * real i \<and> level (snd (ws ! i)) = 1"
    by blast
  let ?s3 = "?s0\<lparr>countdownTime := 0, countdownIntervals := 0,
              countdownActive := False, hasPlayedInitialCountdown := True,
              random := t, timeouts := timeouts g @ ws, levelTimer := Some 0\<rparr>"
  have t3: "countdownTick ?s2 = ?s3"
    using w(1) assms(3) by (simp add: countdownTick_def start_levels)
  have t4: "countdownTick ?s3 = ?s3" by (simp add: countdownTick_def)
  show "run (start g) [Tick] = ?s1" by (simp add: run_def t1)
  show "run (start g) [Tick, Tick] = ?s2" by (simp add: run_def t1 t2)
  have r3: "run (start g) [Tick, Tick, Tick] = ?s3" by (simp add: run_def t1 t2 t3)
  then show "\<exists>ws t. run (start g) [Tick, Tick, Tick] =
            (start g)\<lparr>countdownTime := 0, countdownIntervals := 0,
              countdownActive := False, hasPlayedInitialCountdown := True,
              random := t, timeouts := timeouts g @ ws, levelTimer := Some 0\<rparr>
          \<and> length ws = 15
          \<and> (\<forall>i<15. fst (ws ! i) = 50 * real i \<and> level (snd (ws ! i)) = 1)"
    using w(2,3) by blast
  show "run (start g) [Tick, Tick, Tick, Tick] = run (start g) [Tick, Tick, Tick]"
    unfolding r3 by (simp add: run_def t1 t2 t3 t4)
qed

text \<open>
  C8. While \<open>countdownActive\<close> is true, \<^verbatim>\<open>handleClick\<close> and \<^verbatim>\<open>update\<close> return the state
  unchanged. A tick that leaves the countdown above 0 only lowers it. The tick that brings it
  to 0 at level 1 ends the interval, clears \<open>countdownActive\<close>, sets \<open>levelTimer\<close> to 0 and
  schedules the wave of level 1 once: fifteen level-1 insertions 50 ms apart. In a session
  that \<^verbatim>\<open>start\<close> begins with no other countdown interval live, that is the third tick: after
  one and after two ticks the countdown is still active and nothing is scheduled, and a fourth
  tick does not come, so the wave is spawned exactly once.
\<close>

theorem countdown_gating:
  "(countdownActive s \<longrightarrow> handleClick x y s = s \<and> update dt now s = s)
   \<and> (1 < countdownTime s \<longrightarrow>
        countdownCallback s = s\<lparr>countdownTime := countdownTime s - 1\<rparr>)
   \<and> (countdownTime s \<le> 1 \<and> currentLevel s = 1 \<and> maxLevel s = 10 \<and> 1 \<le> butterflyImages s \<longrightarrow>
        (\<exists>ws t. countdownCallback s =
            s\<lparr>countdownTime := countdownTime s - 1,
              countdownIntervals := countdownIntervals s - 1,
              countdownActive := False, hasPlayedInitialCountdown := True,
              random := t, timeouts := timeouts s @ ws, levelTimer := Some 0\<rparr>
          \<and> length ws = 15
          \<and> (\<forall>i<15. fst (ws ! i) = 50 * real i \<and> level (snd (ws ! i)) = 1)))
   \<and> (maxLevel g = 10 \<and> 1 \<le> butterflyImages g \<and> countdownIntervals g = 0 \<longrightarrow>
        run (start g) [Tick] = (start g)\<lparr>countdownTime := 2\<rparr>
        \<and> run (start g) [Tick, Tick] = (start g)\<lparr>countdownTime := 1\<rparr>
        \<and> (\<exists>ws t. run (start g) [Tick, Tick, Tick] =
              (start g)\<lparr>countdownTime := 0, countdownIntervals := 0,
                countdownActive := False, hasPlayedInitialCountdown := True,
                random := t, timeouts := timeouts g @ ws, levelTimer := Some 0\<rparr>
            \<and> length ws = 15
            \<and> (\<forall>i<15. fst (ws ! i) = 50 * real i \<and> level (snd (ws ! i)) = 1))
        \<and> run (start g) [Tick, Tick, Tick, Tick] = run (start g) [Tick, Tick, Tick])"
  using handleClick_countdown[of s x y] update_countdown[of s dt now]
    countdownCallback_continue[of s] countdownCallback_finish[of s]
    countdown_session[of g]
  by blast

theorem countdown_gating_witness:
  "countdownActive (start demoGame)
   \<and> handleClick 130 130 (start demoGame) = start demoGame
   \<and> update (1/60) 1016 (start demoGame) = start demoGame
   \<and> 1 < countdownTime (start demoGame)
   \<and> countdownTime (countdownCallback (start demoGame)) = 2
   \<and> maxLevel demoGame = 10 \<and> 1 \<le> butterflyImages demoGame \<and> countdownIntervals demoGame = 0
   \<and> countdownActive (run (start demoGame) [Tick, Tick])
   \<and> timeouts (run (start demoGame) [Tick, Tick]) = []
   \<and> \<not> countdownActive (run (start demoGame) [Tick, Tick, Tick])
   \<and> levelTimer (run (start demoGame) [Tick, Tick, Tick]) = Some 0
   \<and> length (timeouts (run (start demoGame) [Tick, Tick, Tick])) = 15
   \<and> length (timeouts (run (start demoGame) [Tick, Tick, Tick, Tick])) = 15
   \<and> countdownTime (run (start demoGame) [Tick, Tick]) \<le> 1
   \<and> currentLevel (run (start demoGame) [Tick, Tick]) = 1
   \<and> length (timeouts (countdownCallback (run (start demoGame) [Tick, Tick]))) = 15"
proof -
  note T = countdown_gating[of "start demoGame" 130 130 "1/60" 1016 demoGame]
  note U = countdown_gating[of "run (start demoGame) [Tick, Tick]" 130 130 "1/60" 1016 demoGame]
  have r2: "run (start demoGame) [Tick, Tick] = (start demoGame)\<lparr>countdownTime := 1\<rparr>"
    using T by (simp add: demoGame_fields)
  obtain ws t where r3: "run (start demoGame) [Tick, Tick, Tick] =
              (start demoGame)\<lparr>countdownTime := 0, countdownIntervals := 0,
                countdownActive := False, hasPlayedInitialCountdown := True,
                random := t, timeouts := timeouts demoGame @ ws, levelTimer := Some 0\<rparr>"
      and len: "length ws = 15"
    using T demoGame_fields by auto
  have r4: "run (start demoGame) [Tick, Tick, Tick, Tick] = run (start demoGame) [Tick, Tick, Tick]"
    using T by (simp add: demoGame_fields)
  have h: "countdownTime (run (start demoGame) [Tick, Tick]) \<le> 1"
    "currentLevel (run (start demoGame) [Tick, Tick]) = 1"
    "maxLevel (run (start demoGame) [Tick, Tick]) = 10"
    "1 \<le> butterflyImages (run (start demoGame) [Tick, Tick])"
    by (simp_all add: r2 start_levels demoGame_fields)
  obtain ws' t' where "countdownCallback (run (start demoGame) [Tick, Tick]) =
            (run (start demoGame) [Tick, Tick])\<lparr>countdownTime := countdownTime (run (start demoGame) [Tick, Tick]) - 1,
              countdownIntervals := countdownIntervals (run (start demoGame) [Tick, Tick]) - 1,
              countdownActive := False, hasPlayedInitialCountdown := True,
              random := t', timeouts := timeouts (run (start demoGame) [Tick, Tick]) @ ws', levelTimer := Some 0\<rparr>"
      and len': "length ws' = 15"
    using U h by blast
  then have c: "length (timeouts (countdownCallback (run (start demoGame) [Tick, Tick]))) = 15"
    by (simp add: r2 start_levels demoGame_fields)
  have a: "handleClick 130 130 (start demoGame) = start demoGame"
    "update (1/60) 1016 (start demoGame) = start demoGame"
    "countdownTime (countdownCallback (start demoGame)) = 2"
    using T by (simp_all add: start_levels)
  show ?thesis
    using a c h by (simp add: r2 r3 r4 len start_levels demoGame_fields)
qed

subsection \<open>Deferred insertions\<close>

lemma run_Cons: "run s (e # es) = run (step s e) es"
  by (simp add: run_def)

lemma run_snoc: "run s (es @ [e]) = step (run s es) e"
  by (simp add: run_def)

lemma startNextLevel_fields:
  "butterflies (startNextLevel s) = butterflies s"
  "\<not> isLevelTransitioning (startNextLevel s)"
proof -
  define z where "z = s\<lparr>currentWave := 0, isWaveTransitioning := False, waveTimer := 0,
                 levelTimer := Some 0\<rparr>"
  obtain ws t lt where "spawnButterflies 0 z =
     z\<lparr>hasPlayedInitialCountdown := True, random := t, timeouts := timeouts z @ ws, levelTimer := lt\<rparr>"
    using spawnButterflies_shape by blast
  then have "startNextLevel s = z\<lparr>hasPlayedInitialCountdown := True, random := t,
      timeouts := timeouts z @ ws, levelTimer := lt, isLevelTransitioning := False,
      levelTransitionComplete := Some True, levelTransitionStartTime := None\<rparr>"
    by (simp add: startNextLevel_def Let_def z_def)
  then show "butterflies (startNextLevel s) = butterflies s"
    "\<not> isLevelTransitioning (startNextLevel s)"
    by (simp_all add: z_def)
qed

text \<open>The session of \<open>staleEvents\<close>, event by event.\<close>

lemma staleScenario_4:
  "\<exists>ws t. staleScenario 4 =
      (start demoGame)\<lparr>lastTimestamp := 1000, countdownTime := 0, countdownIntervals := 0,
        countdownActive := False, hasPlayedInitialCountdown := True,
        random := t, timeouts := ws, levelTimer := Some 0\<rparr>
    \<and> length ws = 15 \<and> (\<forall>i<15. fst (ws ! i) = 50 * real i \<and> level (snd (ws ! i)) = 1)"
proof -
  define g where "g = demoGame\<lparr>lastTimestamp := 1000\<rparr>"
  have f: "gameLoop 1000 1000 (start demoGame) = start g"
    by (simp add: gameLoop_def regularFrame_def update_def start_def g_def demoGame_fields)
  have "maxLevel g = 10" "1 \<le> butterflyImages g" "countdownIntervals g = 0"
    by (simp_all add: g_def demoGame_fields)
  from countdown_session(3)[OF this]
  obtain ws t where w: "run (start g) [Tick, Tick, Tick] =
            (start g)\<lparr>countdownTime := 0, countdownIntervals := 0,
              countdownActive := False, hasPlayedInitialCountdown := True,
              random := t, timeouts := timeouts g @ ws, levelTimer := Some 0\<rparr>"
    "length ws = 15" "\<forall>i<15. fst (ws ! i) = 50 * real i \<and> level (snd (ws ! i)) = 1"
    by blast
  have "staleScenario 4 = run (start g) [Tick, Tick, Tick]"
    by (simp add: staleScenario_def staleEvents_def run_Cons f)
  then have "staleScenario 4 =
      (start demoGame)\<lparr>lastTimestamp := 1000, countdownTime := 0, countdownIntervals := 0,
        countdownActive := False, hasPlayedInitialCountdown := True,
        random := t, timeouts := ws, levelTimer := Some 0\<rparr>"
    using w(1) by (simp add: g_def start_def demoGame_fields)
  then show ?thesis using w(2,3) by blast
qed

lemma staleScenario_5:
  "\<exists>ws t. staleScenario 5 =
      (start demoGame)\<lparr>lastTimestamp := 3500, countdownTime := 0, countdownIntervals := 0,
        countdownActive := False, hasPlayedInitialCountdown := True,
        random := t, timeouts := ws, levelTimer := Some 0,
        isLevelTransitioning := True, currentLevel := 2,
        levelTransitionStartTime := Some 3500, levelTransitionDuration := 1000,
        levelTransitionComplete := Some False\<rparr>
    \<and> length ws = 15 \<and> (\<forall>i<15. fst (ws ! i) = 50 * real i \<and> level (snd (ws ! i)) = 1)"
proof -
  obtain ws t where s4: "staleScenario 4 =
      (start demoGame)\<lparr>lastTimestamp := 1000, countdownTime := 0, countdownIntervals := 0,
        countdownActive := False, hasPlayedInitialCountdown := True,
        random := t, timeouts := ws, levelTimer := Some 0\<rparr>"
    and w: "length ws = 15" "\<forall>i<15. fst (ws ! i) = 50 * real i \<and> level (snd (ws ! i)) = 1"
    using staleScenario_4 by blast
  have "staleScenario 5 = step (staleScenario 4) (Frame 3500 3500)"
    using run_snoc[of "start demoGame" "take 4 staleEvents" "Frame 3500 3500"]
    by (simp add: staleScenario_def staleEvents_def)
  then have "staleScenario 5 =
      (start demoGame)\<lparr>lastTimestamp := 3500, countdownTime := 0, countdownIntervals := 0,
        countdownActive := False, hasPlayedInitialCountdown := True,
        random := t, timeouts := ws, levelTimer := Some 0,
        isLevelTransitioning := True, currentLevel := 2,
        levelTransitionStartTime := Some 3500, levelTransitionDuration := 1000,
        levelTransitionComplete := Some False\<rparr>"
    unfolding s4
    by (simp add: gameLoop_def regularFrame_def update_def extraSpawn_def levelComplete_def
        Let_def start_def demoGame_fields)
  then show ?thesis using w by blast
qed

lemma staleScenario_6:
  "\<exists>ws t b. staleScenario 6 =
      (start demoGame)\<lparr>lastTimestamp := 3500, countdownTime := 0, countdownIntervals := 0,
        countdownActive := False, hasPlayedInitialCountdown := True,
        random := t, timeouts := ws, levelTimer := Some 0,
        isLevelTransitioning := True, currentLevel := 2,
        levelTransitionStartTime := Some 3500, levelTransitionDuration := 1000,
        levelTransitionComplete := Some False, butterflies := [b]\<rparr>
    \<and> level b = 1"
proof -
  obtain ws t where s5: "staleScenario 5 =
      (start demoGame)\<lparr>lastTimestamp := 3500, countdownTime := 0, countdownIntervals := 0,
        countdownActive := False, hasPlayedInitialCountdown := True,
        random := t, timeouts := ws, levelTimer := Some 0,
        isLevelTransitioning := True, currentLevel := 2,
        levelTransitionStartTime := Some 3500, levelTransitionDuration := 1000,
        levelTransitionComplete := Some False\<rparr>"
    and w: "length ws = 15" "\<forall>i<15. fst (ws ! i) = 50 * real i \<and> level (snd (ws ! i)) = 1"
    using staleScenario_5 by blast
  have "staleScenario 6 = step (staleScenario 5) (Timeout 0)"
    using run_snoc[of "start demoGame" "take 5 staleEvents" "Timeout 0"]
    by (simp add: staleScenario_def staleEvents_def)
  then have "staleScenario 6 =
      (start demoGame)\<lparr>lastTimestamp := 3500, countdownTime := 0, countdownIntervals := 0,
        countdownActive := False, hasPlayedInitialCountdown := True,
        random := t, timeouts := drop 1 ws, levelTimer := Some 0,
        isLevelTransitioning := True, currentLevel := 2,
        levelTransitionStartTime := Some 3500, levelTransitionDuration := 1000,
        levelTransitionComplete := Some False, butterflies := [snd (ws ! 0)]\<rparr>"
    unfolding s5 using w(1)
    by (simp add: fireTimeout_def insertCallback_def start_def)
  moreover have "level (snd (ws ! 0)) = 1" using w(2) by simp
  ultimately show ?thesis by blast
qed

lemma staleScenario_7:
  "currentLevel (staleScenario 7) = 2 \<and> \<not> isLevelTransitioning (staleScenario 7)
   \<and> map level (butterflies (staleScenario 7)) = [1]"
proof -
  obtain ws t b where s6: "staleScenario 6 =
      (start demoGame)\<lparr>lastTimestamp := 3500, countdownTime := 0, countdownIntervals := 0,
        countdownActive := False, hasPlayedInitialCountdown := True,
        random := t, timeouts := ws, levelTimer := Some 0,
        isLevelTransitioning := True, currentLevel := 2,
        levelTransitionStartTime := Some 3500, levelTransitionDuration := 1000,
        levelTransitionComplete := Some False, butterflies := [b]\<rparr>"
    and b: "level b = 1"
    using staleScenario_6 by blast
  have "staleScenario 7 = step (staleScenario 6) (Frame 4600 4600)"
    using run_snoc[of "start demoGame" "take 6 staleEvents" "Frame 4600 4600"]
    by (simp add: staleScenario_def staleEvents_def)
  then have "staleScenario 7 =
      (startNextLevel ((staleScenario 6)\<lparr>levelTransitionComplete := Some True\<rparr>))
        \<lparr>levelTransitionStartTime := None\<rparr>"
    by (simp add: s6 gameLoop_def Let_def start_def demoGame_fields)
  then show ?thesis
    by (simp add: startNextLevel_fields startNextLevel_levels s6 b)
qed

text \<open>
  C9, as the code has it. The callback of a staggered insertion appends its butterfly to the
  live collection whatever the state is: no level or epoch is recorded when it is scheduled,
  and none is checked when it runs. Neither \<^verbatim>\<open>levelComplete\<close> nor \<^verbatim>\<open>start\<close> cancels a
  pending insertion.
\<close>

theorem deferred_insertion_unguarded:
  "insertCallback b s = s\<lparr>butterflies := butterflies s @ [b]\<rparr>
   \<and> (k < length (timeouts s) \<longrightarrow>
        butterflies (fireTimeout k s) = butterflies s @ [snd (timeouts s ! k)]
        \<and> currentLevel (fireTimeout k s) = currentLevel s
        \<and> isLevelTransitioning (fireTimeout k s) = isLevelTransitioning s)
   \<and> timeouts (levelComplete fastTransition now s) = timeouts s
   \<and> timeouts (start s) = timeouts s"
  by (simp add: insertCallback_def fireTimeout_def levelComplete_def gameComplete_def Let_def
      start_def)

theorem deferred_insertion_unguarded_witness:
  "0 < length (timeouts (staleScenario 5))
   \<and> isLevelTransitioning (staleScenario 5)
   \<and> butterflies (staleScenario 5) = []
   \<and> length (butterflies (fireTimeout 0 (staleScenario 5))) = 1
   \<and> isLevelTransitioning (fireTimeout 0 (staleScenario 5))"
proof -
  obtain ws t where s5: "staleScenario 5 =
      (start demoGame)\<lparr>lastTimestamp := 3500, countdownTime := 0, countdownIntervals := 0,
        countdownActive := False, hasPlayedInitialCountdown := True,
        random := t, timeouts := ws, levelTimer := Some 0,
        isLevelTransitioning := True, currentLevel := 2,
        levelTransitionStartTime := Some 3500, levelTransitionDuration := 1000,
        levelTransitionComplete := Some False\<rparr>"
    and w: "length ws = 15"
    using staleScenario_5 by blast
  have f: "0 < length (timeouts (staleScenario 5))" "isLevelTransitioning (staleScenario 5)"
    "butterflies (staleScenario 5) = []"
    by (simp_all add: s5 w start_levels)
  show ?thesis
    using deferred_insertion_unguarded[of "snd (timeouts (staleScenario 5) ! 0)" "staleScenario 5" 0 True 0] f
    by simp
qed

text \<open>
  The claim C9 as it was stated fails on that session: the wave of level 1 is scheduled by
  the third tick (event 4), the transition to level 2 begins in the frame that follows
  (event 5), the first insertion of the wave runs during the transition (event 6) and its
  level-1 butterfly is in the live collection when level 2 starts (event 7).
\<close>

theorem stale_insertion_counterexample:
  "length (timeouts (staleScenario 4)) = 15 \<and> currentLevel (staleScenario 4) = 1
   \<and> butterflies (staleScenario 5) = [] \<and> isLevelTransitioning (staleScenario 5)
   \<and> currentLevel (staleScenario 5) = 2
   \<and> map level (butterflies (staleScenario 6)) = [1] \<and> isLevelTransitioning (staleScenario 6)
   \<and> currentLevel (staleScenario 7) = 2 \<and> \<not> isLevelTransitioning (staleScenario 7)
   \<and> map level (butterflies (staleScenario 7)) = [1]"
proof -
  obtain ws4 t4 where s4: "staleScenario 4 =
      (start demoGame)\<lparr>lastTimestamp := 1000, countdownTime := 0, countdownIntervals := 0,
        countdownActive := False, hasPlayedInitialCountdown := True,
        random := t4, timeouts := ws4, levelTimer := Some 0\<rparr>"
    and w4: "length ws4 = 15"
    using staleScenario_4 by blast
  obtain ws5 t5 where s5: "staleScenario 5 =
      (start demoGame)\<lparr>lastTimestamp := 3500, countdownTime := 0, countdownIntervals := 0,
        countdownActive := False, hasPlayedInitialCountdown := True,
        random := t5, timeouts := ws5, levelTimer := Some 0,
        isLevelTransitioning := True, currentLevel := 2,
        levelTransitionStartTime := Some 3500, levelTransitionDuration := 1000,
        levelTransitionComplete := Some False\<rparr>"
    using staleScenario_5 by blast
  obtain ws6 t6 b where s6: "staleScenario 6 =
      (start demoGame)\<lparr>lastTimestamp := 3500, countdownTime := 0, countdownIntervals := 0,
        countdownActive := False, hasPlayedInitialCountdown := True,
        random := t6, timeouts := ws6, levelTimer := Some 0,
        isLevelTransitioning := True, currentLevel := 2,
        levelTransitionStartTime := Some 3500, levelTransitionDuration := 1000,
        levelTransitionComplete := Some False, butterflies := [b]\<rparr>"
    and b: "level b = 1"
    using staleScenario_6 by blast
  have "length (timeouts (staleScenario 4)) = 15 \<and> currentLevel (staleScenario 4) = 1"
    by (simp add: s4 w4 start_levels)
  moreover have "butterflies (staleScenario 5) = [] \<and> isLevelTransitioning (staleScenario 5)
      \<and> currentLevel (staleScenario 5) = 2"
    by (simp add: s5 start_levels)
  moreover have "map level (butterflies (staleScenario 6)) = [1] \<and> isLevelTransitioning (staleScenario 6)"
    by (simp add: s6 b)
  ultimately show ?thesis using staleScenario_7 by blast
qed

subsection \<open>Placing a butterfly\<close>

lemma validTape_draws:
  "validTape t \<Longrightarrow> 0 \<le> draw t \<and> draw t < 1"
  "validTape t \<Longrightarrow> validTape (rest t)"
  by (simp_all add: validTape_def draw_def rest_def)

lemma validTape_constTape: "validTape (constTape (1/2))"
  by (simp add: validTape_def constTape_def)

lemma scaled_draw_range:
  "0 < (w::real) \<Longrightarrow> 0 \<le> r \<Longrightarrow> r < 1 \<Longrightarrow>
   0.2 * w \<le> w * (0.2 + r * 0.6) \<and> w * (0.2 + r * 0.6) < 0.8 * w"
proof -
  assume w: "0 < w" and r: "0 \<le> r" "r < 1"
  have "0 \<le> w * (r * 0.6)" using w r by simp
  moreover have "w * (r * 0.6) < w * 0.6" using w r by simp
  ultimately show ?thesis by (simp add: distrib_left)
qed

lemma edge_draw_range:
  "0 < (w::real) \<Longrightarrow> 0 \<le> r \<Longrightarrow> r < 1 \<Longrightarrow> 0 \<le> w * r \<and> w * r < w"
  by simp

lemma floor_draw_range: "0 \<le> (r::real) \<Longrightarrow> r < 1 \<Longrightarrow> 0 \<le> \<lfloor>r * 4\<rfloor> \<and> \<lfloor>r * 4\<rfloor> \<le> 3"
proof -
  assume r: "0 \<le> r" "r < 1"
  have "0 \<le> \<lfloor>r * 4\<rfloor>" using r by simp
  moreover have "\<lfloor>r * 4\<rfloor> < 4" using r by (simp add: floor_less_iff)
  ultimately show ?thesis by simp
qed

text \<open>The result of the positioning, written out for a given edge.\<close>

lemma positionButterflyInFormation_Some:
  "positionButterflyInFormation cw ch b f i c (Some e) t =
     (let cx = cw * (0.2 + draw t * 0.6);
          cy = ch * (0.2 + draw (rest t) * 0.6);
          p = placeOnEdge cw ch e b (rest (rest t));
          d = atan2 (cy - ypos (fst p)) (cx - xpos (fst p)) + (draw (snd p) - 0.5) * pi / 4
      in ((fst p)\<lparr>direction := d, vx := cos d * speed b, vy := sin d * speed b,
                   crossingPoint := Some (cx, cy), movementPattern := ''direct''\<rparr>,
          rest (snd p)))"
  by (simp add: positionButterflyInFormation_def Let_def case_prod_beta placeOnEdge_fields)

lemma positionButterflyInFormation_None:
  "positionButterflyInFormation cw ch b f i c None t =
     positionButterflyInFormation cw ch b f i c (Some \<lfloor>draw t * 4\<rfloor>) (rest t)"
  by (simp add: positionButterflyInFormation_def)

lemma placeOnEdge_position:
  "e = 0 \<Longrightarrow> xpos (fst (placeOnEdge cw ch e b t)) = cw * draw t
             \<and> ypos (fst (placeOnEdge cw ch e b t)) = - (2 * height b)"
  "e = 1 \<Longrightarrow> xpos (fst (placeOnEdge cw ch e b t)) = cw + width b
             \<and> ypos (fst (placeOnEdge cw ch e b t)) = ch * draw t"
  "e = 2 \<Longrightarrow> xpos (fst (placeOnEdge cw ch e b t)) = cw * draw t
             \<and> ypos (fst (placeOnEdge cw ch e b t)) = ch + height b"
  "e = 3 \<Longrightarrow> xpos (fst (placeOnEdge cw ch e b t)) = - (2 * width b)
             \<and> ypos (fst (placeOnEdge cw ch e b t)) = ch * draw t"
  "0 \<le> e \<and> e \<le> 3 \<Longrightarrow> snd (placeOnEdge cw ch e b t) = rest t"
  by (auto simp add: placeOnEdge_def)

lemmas tape_draws = draw_def rest_def numeral_2_eq_2 numeral_3_eq_3

lemma constTape_apply: "constTape r n = r"
  by (simp add: constTape_def)

lemma positionButterflyInFormation_fst:
  assumes "b' = fst (positionButterflyInFormation cw ch b f i c (Some e) t)"
  shows "crossingPoint b' = Some (cw * (0.2 + 0.6 * t 0), ch * (0.2 + 0.6 * t 1))"
    and "xpos b' = xpos (fst (placeOnEdge cw ch e b (rest (rest t))))"
    and "ypos b' = ypos (fst (placeOnEdge cw ch e b (rest (rest t))))"
    and "direction b' =
           atan2 (ch * (0.2 + 0.6 * t 1) - ypos b') (cw * (0.2 + 0.6 * t 0) - xpos b')
           + (draw (snd (placeOnEdge cw ch e b (rest (rest t)))) - 0.5) * pi / 4"
    and "vx b' = cos (direction b') * speed b"
    and "vy b' = sin (direction b') * speed b"
    and "movementPattern b' = ''direct''"
  unfolding assms
  by (simp_all add: positionButterflyInFormation_Some Let_def tape_draws mult.commute)

text \<open>
  C6, as the code has it. For each of the four edges, with the draws of \<^verbatim>\<open>Math.random()\<close>
  in \<open>[0, 1)\<close>: the crossing point is \<open>(cw * (0.2 + 0.6 r\<^sub>0), ch * (0.2 + 0.6 r\<^sub>1))\<close> for two
  draws, so within 20% to 80% of the width and of the height and linear in the draw; the
  coordinate along the edge is a third draw scaled to the length of the edge; the heading is
  \<open>atan2\<close> from the spawn point to the crossing point plus \<open>(r\<^sub>3 - 0.5) * \<pi>/4\<close>, a jitter of at
  most \<open>\<pi>/8\<close> either way; the velocity is the speed along the heading. The butterfly is put
  outside the edge at \<open>-2 * height\<close> (top) and \<open>-2 * width\<close> (left), twice its size before the
  origin, but at \<open>ch + height\<close> (bottom) and \<open>cw + width\<close> (right), once its size beyond the
  far boundary. An edge that the caller leaves undefined is \<open>\<lfloor>4 r\<rfloor>\<close> for one more draw
  taken first, one of 0 to 3.
\<close>

theorem formation_placement:
  "(validTape t \<and> 0 < cw \<and> 0 < ch \<and> 0 \<le> e \<and> e \<le> 3
      \<and> b' = fst (positionButterflyInFormation cw ch b f i c (Some e) t) \<longrightarrow>
      crossingPoint b' = Some (cw * (0.2 + 0.6 * t 0), ch * (0.2 + 0.6 * t 1))
      \<and> 0.2 * cw \<le> cw * (0.2 + 0.6 * t 0) \<and> cw * (0.2 + 0.6 * t 0) < 0.8 * cw
      \<and> 0.2 * ch \<le> ch * (0.2 + 0.6 * t 1) \<and> ch * (0.2 + 0.6 * t 1) < 0.8 * ch
      \<and> (e = 0 \<longrightarrow> xpos b' = cw * t 2 \<and> 0 \<le> xpos b' \<and> xpos b' < cw
                    \<and> ypos b' = - (2 * height b))
      \<and> (e = 1 \<longrightarrow> xpos b' = cw + width b
                    \<and> ypos b' = ch * t 2 \<and> 0 \<le> ypos b' \<and> ypos b' < ch)
      \<and> (e = 2 \<longrightarrow> xpos b' = cw * t 2 \<and> 0 \<le> xpos b' \<and> xpos b' < cw
                    \<and> ypos b' = ch + height b)
      \<and> (e = 3 \<longrightarrow> xpos b' = - (2 * width b)
                    \<and> ypos b' = ch * t 2 \<and> 0 \<le> ypos b' \<and> ypos b' < ch)
      \<and> direction b' =
          atan2 (ch * (0.2 + 0.6 * t 1) - ypos b') (cw * (0.2 + 0.6 * t 0) - xpos b')
          + (t 3 - 0.5) * pi / 4
      \<and> - (pi / 8) \<le> (t 3 - 0.5) * pi / 4 \<and> (t 3 - 0.5) * pi / 4 < pi / 8
      \<and> vx b' = cos (direction b') * speed b \<and> vy b' = sin (direction b') * speed b
      \<and> movementPattern b' = ''direct'')
   \<and> (validTape t \<longrightarrow> 0 \<le> \<lfloor>draw t * 4\<rfloor> \<and> \<lfloor>draw t * 4\<rfloor> \<le> 3)
   \<and> positionButterflyInFormation cw ch b f i c None t =
       positionButterflyInFormation cw ch b f i c (Some \<lfloor>draw t * 4\<rfloor>) (rest t)"
proof (intro conjI impI)
  show "positionButterflyInFormation cw ch b f i c None t =
       positionButterflyInFormation cw ch b f i c (Some \<lfloor>draw t * 4\<rfloor>) (rest t)"
    by (rule positionButterflyInFormation_None)
next
  assume "validTape t"
  then show "0 \<le> \<lfloor>draw t * 4\<rfloor>" "\<lfloor>draw t * 4\<rfloor> \<le> 3"
    using floor_draw_range[of "draw t"] validTape_draws(1)[of t] by simp_all
next
  assume a: "validTape t \<and> 0 < cw \<and> 0 < ch \<and> 0 \<le> e \<and> e \<le> 3
      \<and> b' = fst (positionButterflyInFormation cw ch b f i c (Some e) t)"
  then have r: "\<And>n. 0 \<le> t n \<and> t n < 1" by (simp add: validTape_def)
  have b': "b' = fst (positionButterflyInFormation cw ch b f i c (Some e) t)" using a by simp
  note P = positionButterflyInFormation_fst[OF b']
  have e: "0 \<le> e \<and> e \<le> 3" using a by simp
  have dr: "draw (snd (placeOnEdge cw ch e b (rest (rest t)))) = t 3"
    using placeOnEdge_position(5)[OF e] by (simp add: tape_draws)
  show "crossingPoint b' = Some (cw * (0.2 + 0.6 * t 0), ch * (0.2 + 0.6 * t 1))"
    by (rule P(1))
  show "0.2 * cw \<le> cw * (0.2 + 0.6 * t 0)" "cw * (0.2 + 0.6 * t 0) < 0.8 * cw"
    using scaled_draw_range[of cw "t 0"] a r[of 0] by (simp_all add: mult.commute)
  show "0.2 * ch \<le> ch * (0.2 + 0.6 * t 1)" "ch * (0.2 + 0.6 * t 1) < 0.8 * ch"
    using scaled_draw_range[of ch "t 1"] a r[of 1] by (simp_all add: mult.commute)
  show "direction b' =
          atan2 (ch * (0.2 + 0.6 * t 1) - ypos b') (cw * (0.2 + 0.6 * t 0) - xpos b')
          + (t 3 - 0.5) * pi / 4"
    using P(4) dr by simp
  have j1: "- (1/2) \<le> t 3 - 0.5" "t 3 - 0.5 < 1/2" using r[of 3] by simp_all
  have "- (1/2) * (pi / 4) \<le> (t 3 - 0.5) * (pi / 4)"
    using j1(1) by (intro mult_right_mono) simp_all
  then show "- (pi / 8) \<le> (t 3 - 0.5) * pi / 4" by simp
  have "(t 3 - 0.5) * (pi / 4) < (1/2) * (pi / 4)"
    using j1(2) by (intro mult_strict_right_mono) simp_all
  then show "(t 3 - 0.5) * pi / 4 < pi / 8" by simp
  show "vx b' = cos (direction b') * speed b" by (rule P(5))
  show "vy b' = sin (direction b') * speed b" by (rule P(6))
  show "movementPattern b' = ''direct''" by (rule P(7))
  have w: "0 \<le> cw * t 2 \<and> cw * t 2 < cw" using edge_draw_range[of cw "t 2"] a r[of 2] by simp
  have h: "0 \<le> ch * t 2 \<and> ch * t 2 < ch" using edge_draw_range[of ch "t 2"] a r[of 2] by simp
  {
    assume "e = 0"
    from placeOnEdge_position(1)[OF this, of cw ch b "rest (rest t)"]
    show "xpos b' = cw * t 2" "0 \<le> xpos b'" "xpos b' < cw" "ypos b' = - (2 * height b)"
      using w by (simp_all add: P(2,3) tape_draws)
  }
  {
    assume "e = 1"
    from placeOnEdge_position(2)[OF this, of cw ch b "rest (rest t)"]
    show "xpos b' = cw + width b" "ypos b' = ch * t 2" "0 \<le> ypos b'" "ypos b' < ch"
      using h by (simp_all add: P(2,3) tape_draws)
  }
  {
    assume "e = 2"
    from placeOnEdge_position(3)[OF this, of cw ch b "rest (rest t)"]
    show "xpos b' = cw * t 2" "0 \<le> xpos b'" "xpos b' < cw" "ypos b' = ch + height b"
      using w by (simp_all add: P(2,3) tape_draws)
  }
  {
    assume "e = 3"
    from placeOnEdge_position(4)[OF this, of cw ch b "rest (rest t)"]
    show "xpos b' = - (2 * width b)" "ypos b' = ch * t 2" "0 \<le> ypos b'" "ypos b' < ch"
      using h by (simp_all add: P(2,3) tape_draws)
  }
qed

lemma width_new_Butterfly_1: "width (new_Butterfly 1) = 57.5" "height (new_Butterfly 1) = 57.5"
  by (simp_all add: new_Butterfly_def)

theorem formation_placement_witness:
  "validTape (constTape (1/2)) \<and> (0::real) < 800 \<and> (0::real) < 600 \<and> (0::int) \<le> 1 \<and> (1::int) \<le> 3
   \<and> crossingPoint (fst (positionButterflyInFormation 800 600 (new_Butterfly 1) (Some ''line'')
        0 15 (Some 1) (constTape (1/2)))) = Some (400, 300)
   \<and> xpos (fst (positionButterflyInFormation 800 600 (new_Butterfly 1) (Some ''line'')
        0 15 (Some 1) (constTape (1/2)))) = 857.5
   \<and> ypos (fst (positionButterflyInFormation 800 600 (new_Butterfly 1) (Some ''line'')
        0 15 (Some 1) (constTape (1/2)))) = 300
   \<and> \<lfloor>draw (constTape (1/2)) * 4\<rfloor> = 2"
  using formation_placement[of "constTape (1/2)" 800 600 1
      "fst (positionButterflyInFormation 800 600 (new_Butterfly 1) (Some ''line'')
        0 15 (Some 1) (constTape (1/2)))" "new_Butterfly 1" "Some ''line''" 0 15]
    validTape_constTape
  by (simp add: constTape_apply width_new_Butterfly_1)

text \<open>
  The claim C6 as it was stated, with the offset "twice its own size beyond the boundary" on
  every edge, fails on the right and on the bottom edge: a level-1 butterfly, 57.5 wide and
  high, is put at \<open>x = 800 + 57.5\<close> on the right edge of an 800 by 600 canvas and at
  \<open>y = 600 + 57.5\<close> on its bottom edge, not at \<open>800 + 115\<close> and \<open>600 + 115\<close>.
\<close>

theorem formation_offset_counterexample:
  "width (new_Butterfly 1) = 57.5 \<and> height (new_Butterfly 1) = 57.5
   \<and> xpos (fst (positionButterflyInFormation 800 600 (new_Butterfly 1) (Some ''line'')
        0 15 (Some 1) (constTape (1/2)))) = 800 + width (new_Butterfly 1)
   \<and> xpos (fst (positionButterflyInFormation 800 600 (new_Butterfly 1) (Some ''line'')
        0 15 (Some 1) (constTape (1/2)))) \<noteq> 800 + 2 * width (new_Butterfly 1)
   \<and> ypos (fst (positionButterflyInFormation 800 600 (new_Butterfly 1) (Some ''line'')
        0 15 (Some 2) (constTape (1/2)))) = 600 + height (new_Butterfly 1)
   \<and> ypos (fst (positionButterflyInFormation 800 600 (new_Butterfly 1) (Some ''line'')
        0 15 (Some 2) (constTape (1/2)))) \<noteq> 600 + 2 * height (new_Butterfly 1)"
  by (simp add: positionButterflyInFormation_Some Let_def placeOnEdge_def width_new_Butterfly_1)

end
